theory Spec2Isabelle
  imports Main "HOL-Library.Sublist"
begin

section \<open>The music catalogue: data model\<close>

text \<open>
  The repository holds two console programs over one PostgreSQL database
  (\<^verbatim>\<open>music_app\<close>): \<^verbatim>\<open>db_Assignment_no_orm.py\<close> sends SQL text through psycopg2,
  \<^verbatim>\<open>db_arrignment_orm.py\<close> goes through SQLAlchemy. The schema is the one of
  \<^verbatim>\<open>create_tables\<close>: eleven tables, each a list of rows here, in insertion order.

  Modelling boundary. Numbers and dates typed at a prompt are taken as the value the
  text denotes; text that denotes none never reaches a table. The rating is kept as
  the text typed, since its prompt lists the texts it accepts. Columns the code always
  fills (the foreign keys, the rating) are not optional in the rows; the three columns
  the code may leave NULL (\<^verbatim>\<open>bio\<close>, \<^verbatim>\<open>release_date\<close>, \<^verbatim>\<open>duration\<close>) are options,
  \<open>None\<close> being NULL. Timestamps come from a clock value passed to the operation.
  The connection is assumed to open.
\<close>

type_synonym date = "nat \<times> nat \<times> nat"
type_synonym timestamp = nat

record user_row =
  u_id :: int
  u_username :: string
  u_email :: string
  u_password :: string
  u_created_at :: timestamp

record artist_row =
  ar_id :: int
  ar_name :: string
  ar_bio :: "string option"

record album_row =
  al_id :: int
  al_title :: string
  al_artist_id :: int
  al_release_date :: "date option"

record song_row =
  s_id :: int
  s_title :: string
  s_album_id :: int
  s_duration :: "int option"
  s_file_path :: string

record playlist_row =
  p_id :: int
  p_name :: string
  p_user_id :: int

record playlist_song_row =
  ps_playlist_id :: int
  ps_song_id :: int
  ps_added_at :: timestamp

record play_history_row =
  ph_id :: int
  ph_user_id :: int
  ph_song_id :: int
  ph_played_at :: timestamp

record song_rating_row =
  sr_user_id :: int
  sr_song_id :: int
  sr_rating :: int

record song_like_row =
  sl_user_id :: int
  sl_song_id :: int
  sl_liked_at :: timestamp

record artist_follow_row =
  af_user_id :: int
  af_artist_id :: int
  af_followed_at :: timestamp

record song_comment_row =
  sc_id :: int
  sc_user_id :: int
  sc_song_id :: int
  sc_comment :: string
  sc_commented_at :: timestamp

text \<open>
  The database: the eleven tables and the SERIAL sequences the code draws ids from
  (\<^verbatim>\<open>play_history\<close> is never inserted into, so its sequence is never read).
\<close>

record db =
  users :: "user_row list"
  artists :: "artist_row list"
  albums :: "album_row list"
  songs :: "song_row list"
  playlists :: "playlist_row list"
  playlist_songs :: "playlist_song_row list"
  play_history :: "play_history_row list"
  song_ratings :: "song_rating_row list"
  song_likes :: "song_like_row list"
  artist_follows :: "artist_follow_row list"
  song_comments :: "song_comment_row list"
  users_id_seq :: int
  artists_id_seq :: int
  albums_id_seq :: int
  songs_id_seq :: int
  playlists_id_seq :: int
  song_comments_id_seq :: int

definition empty_db :: db where
  "empty_db = \<lparr>users = [], artists = [], albums = [], songs = [], playlists = [],
     playlist_songs = [], play_history = [], song_ratings = [], song_likes = [],
     artist_follows = [], song_comments = [],
     users_id_seq = 0, artists_id_seq = 0, albums_id_seq = 0, songs_id_seq = 0,
     playlists_id_seq = 0, song_comments_id_seq = 0\<rparr>"

section \<open>Errors and outcomes\<close>

text \<open>
  \<open>pg_error\<close>: the psycopg2 error classes the schema's constraints raise.
  \<open>value_error\<close>: the three ValueError messages of \<^verbatim>\<open>validate_input\<close>, and the one of \<^verbatim>\<open>int()\<close>.
  \<open>outcome\<close>: what an operation reports on the console.

  Neither program defines error classes of its own. The error kinds of the
  specification are read off the outcomes: a conflict is the refusal \<open>CannotDelete\<close>,
  the message \<open>UsernameOrEmailExists\<close> or the error \<open>DbError UniqueViolation\<close>; a
  validation failure is \<open>InvalidChoice\<close> or \<open>ValidationError\<close>; not found is
  \<open>NotFound\<close>; every other \<open>DbError\<close> is a storage failure.
\<close>

datatype pg_error =
    UniqueViolation
  | ForeignKeyViolation
  | CheckViolation
  | StringDataRightTruncation

datatype value_error = InputEmpty | InputTooLong | InvalidCharacters | InvalidLiteral

datatype outcome =
    Done                        \<comment> \<open>green: added, updated or deleted successfully\<close>
  | AlreadyExists               \<comment> \<open>yellow: already exists, already liked, already follows\<close>
  | NotFound                    \<comment> \<open>red: ... not found!\<close>
  | CannotDelete                \<comment> \<open>red: Cannot delete artist with existing albums!\<close>
  | UsernameOrEmailExists       \<comment> \<open>red: Username or email already exists!\<close>
  | EmailInUse                  \<comment> \<open>red: Email already in use by another user!\<close>
  | Cancelled                   \<comment> \<open>Confirm.ask answered no\<close>
  | InvalidChoice               \<comment> \<open>Prompt.ask refuses a response outside its choices\<close>
  | DbError pg_error            \<comment> \<open>red: Error: e / Database error: e\<close>
  | PyTypeError                 \<comment> \<open>red: Database error: unexpected keyword argument\<close>
  | ValidationError value_error \<comment> \<open>red: Validation error: e\<close>

definition sbind :: "'e + 'a \<Rightarrow> ('a \<Rightarrow> 'e + 'b) \<Rightarrow> 'e + 'b" where
  "sbind m f = (case m of Inl e \<Rightarrow> Inl e | Inr x \<Rightarrow> f x)"

section \<open>SQL statements\<close>

text \<open>
  A statement runs inside the open transaction: it returns the error PostgreSQL raises,
  or the row count and the new state. \<^verbatim>\<open>REFERENCES\<close> without an \<^verbatim>\<open>ON DELETE\<close> clause
  refuses the deletion of a row that another table still points to.
\<close>

definition user_referenced :: "db \<Rightarrow> int \<Rightarrow> bool" where
  "user_referenced d i \<longleftrightarrow>
     (\<exists>r \<in> set (playlists d). p_user_id r = i) \<or>
     (\<exists>r \<in> set (play_history d). ph_user_id r = i) \<or>
     (\<exists>r \<in> set (song_ratings d). sr_user_id r = i) \<or>
     (\<exists>r \<in> set (song_likes d). sl_user_id r = i) \<or>
     (\<exists>r \<in> set (artist_follows d). af_user_id r = i) \<or>
     (\<exists>r \<in> set (song_comments d). sc_user_id r = i)"

definition artist_referenced :: "db \<Rightarrow> int \<Rightarrow> bool" where
  "artist_referenced d i \<longleftrightarrow>
     (\<exists>r \<in> set (albums d). al_artist_id r = i) \<or>
     (\<exists>r \<in> set (artist_follows d). af_artist_id r = i)"

definition album_referenced :: "db \<Rightarrow> int \<Rightarrow> bool" where
  "album_referenced d i \<longleftrightarrow> (\<exists>r \<in> set (songs d). s_album_id r = i)"

definition song_referenced :: "db \<Rightarrow> int \<Rightarrow> bool" where
  "song_referenced d i \<longleftrightarrow>
     (\<exists>r \<in> set (playlist_songs d). ps_song_id r = i) \<or>
     (\<exists>r \<in> set (play_history d). ph_song_id r = i) \<or>
     (\<exists>r \<in> set (song_ratings d). sr_song_id r = i) \<or>
     (\<exists>r \<in> set (song_likes d). sl_song_id r = i) \<or>
     (\<exists>r \<in> set (song_comments d). sc_song_id r = i)"

definition playlist_referenced :: "db \<Rightarrow> int \<Rightarrow> bool" where
  "playlist_referenced d i \<longleftrightarrow> (\<exists>r \<in> set (playlist_songs d). ps_playlist_id r = i)"

definition user_exists :: "db \<Rightarrow> int \<Rightarrow> bool" where
  "user_exists d i \<longleftrightarrow> (\<exists>r \<in> set (users d). u_id r = i)"

definition artist_exists :: "db \<Rightarrow> int \<Rightarrow> bool" where
  "artist_exists d i \<longleftrightarrow> (\<exists>r \<in> set (artists d). ar_id r = i)"

definition album_exists :: "db \<Rightarrow> int \<Rightarrow> bool" where
  "album_exists d i \<longleftrightarrow> (\<exists>r \<in> set (albums d). al_id r = i)"

definition song_exists :: "db \<Rightarrow> int \<Rightarrow> bool" where
  "song_exists d i \<longleftrightarrow> (\<exists>r \<in> set (songs d). s_id r = i)"

definition playlist_exists :: "db \<Rightarrow> int \<Rightarrow> bool" where
  "playlist_exists d i \<longleftrightarrow> (\<exists>r \<in> set (playlists d). p_id r = i)"

text \<open>
  \<^verbatim>\<open>VARCHAR(n)\<close>: a longer text is refused, unless only spaces exceed the width, which
  PostgreSQL cuts off. The text is a literal of the statement, so this happens before
  the statement runs.
\<close>

definition varchar :: "nat \<Rightarrow> string \<Rightarrow> pg_error + string" where
  "varchar n s =
     (if length s \<le> n then Inr s
      else if \<forall>c \<in> set (drop n s). c = CHR '' '' then Inr (take n s)
      else Inl StringDataRightTruncation)"

text \<open>\<^verbatim>\<open>nextval\<close> of a SERIAL column: the sequence moves and never moves back.\<close>

definition nextval_users :: "db \<Rightarrow> int \<times> db" where
  "nextval_users d = (users_id_seq d + 1, d\<lparr>users_id_seq := users_id_seq d + 1\<rparr>)"

definition nextval_artists :: "db \<Rightarrow> int \<times> db" where
  "nextval_artists d = (artists_id_seq d + 1, d\<lparr>artists_id_seq := artists_id_seq d + 1\<rparr>)"

definition nextval_albums :: "db \<Rightarrow> int \<times> db" where
  "nextval_albums d = (albums_id_seq d + 1, d\<lparr>albums_id_seq := albums_id_seq d + 1\<rparr>)"

definition nextval_songs :: "db \<Rightarrow> int \<times> db" where
  "nextval_songs d = (songs_id_seq d + 1, d\<lparr>songs_id_seq := songs_id_seq d + 1\<rparr>)"

definition nextval_playlists :: "db \<Rightarrow> int \<times> db" where
  "nextval_playlists d =
     (playlists_id_seq d + 1, d\<lparr>playlists_id_seq := playlists_id_seq d + 1\<rparr>)"

definition nextval_song_comments :: "db \<Rightarrow> int \<times> db" where
  "nextval_song_comments d =
     (song_comments_id_seq d + 1, d\<lparr>song_comments_id_seq := song_comments_id_seq d + 1\<rparr>)"

text \<open>
  \<^verbatim>\<open>INSERT INTO t\<close>, the new id already drawn from the sequence. The unique indexes
  (primary key, \<^verbatim>\<open>UNIQUE\<close>) are checked as the row goes in, the foreign keys at the
  end of the statement.
\<close>

definition insert_into_users ::
  "int \<Rightarrow> string \<Rightarrow> string \<Rightarrow> string \<Rightarrow> timestamp \<Rightarrow> db \<Rightarrow> pg_error + nat \<times> db" where
  "insert_into_users i username email password now d =
     (if \<exists>r \<in> set (users d). u_id r = i \<or> u_username r = username \<or> u_email r = email
      then Inl UniqueViolation
      else Inr (1, d\<lparr>users := users d @
             [\<lparr>u_id = i, u_username = username, u_email = email, u_password = password,
               u_created_at = now\<rparr>]\<rparr>))"

definition insert_into_artists ::
  "int \<Rightarrow> string \<Rightarrow> string option \<Rightarrow> db \<Rightarrow> pg_error + nat \<times> db" where
  "insert_into_artists i name bio d =
     (if \<exists>r \<in> set (artists d). ar_id r = i then Inl UniqueViolation
      else Inr (1, d\<lparr>artists := artists d @ [\<lparr>ar_id = i, ar_name = name, ar_bio = bio\<rparr>]\<rparr>))"

definition insert_into_albums ::
  "int \<Rightarrow> string \<Rightarrow> int \<Rightarrow> date option \<Rightarrow> db \<Rightarrow> pg_error + nat \<times> db" where
  "insert_into_albums i title artist_id release_date d =
     (if \<exists>r \<in> set (albums d). al_id r = i then Inl UniqueViolation
      else if \<not> artist_exists d artist_id then Inl ForeignKeyViolation
      else Inr (1, d\<lparr>albums := albums d @
             [\<lparr>al_id = i, al_title = title, al_artist_id = artist_id,
               al_release_date = release_date\<rparr>]\<rparr>))"

definition insert_into_songs ::
  "int \<Rightarrow> string \<Rightarrow> int \<Rightarrow> int option \<Rightarrow> string \<Rightarrow> db \<Rightarrow> pg_error + nat \<times> db" where
  "insert_into_songs i title album_id duration file_path d =
     (if \<exists>r \<in> set (songs d). s_id r = i then Inl UniqueViolation
      else if \<not> album_exists d album_id then Inl ForeignKeyViolation
      else Inr (1, d\<lparr>songs := songs d @
             [\<lparr>s_id = i, s_title = title, s_album_id = album_id, s_duration = duration,
               s_file_path = file_path\<rparr>]\<rparr>))"

definition insert_into_playlists ::
  "int \<Rightarrow> string \<Rightarrow> int \<Rightarrow> db \<Rightarrow> pg_error + nat \<times> db" where
  "insert_into_playlists i name user_id d =
     (if \<exists>r \<in> set (playlists d). p_id r = i then Inl UniqueViolation
      else if \<not> user_exists d user_id then Inl ForeignKeyViolation
      else Inr (1, d\<lparr>playlists := playlists d @
             [\<lparr>p_id = i, p_name = name, p_user_id = user_id\<rparr>]\<rparr>))"

definition insert_into_song_comments ::
  "int \<Rightarrow> int \<Rightarrow> int \<Rightarrow> string \<Rightarrow> timestamp \<Rightarrow> db \<Rightarrow> pg_error + nat \<times> db" where
  "insert_into_song_comments i user_id song_id comment now d =
     (if \<exists>r \<in> set (song_comments d). sc_id r = i then Inl UniqueViolation
      else if \<not> user_exists d user_id \<or> \<not> song_exists d song_id then Inl ForeignKeyViolation
      else Inr (1, d\<lparr>song_comments := song_comments d @
             [\<lparr>sc_id = i, sc_user_id = user_id, sc_song_id = song_id, sc_comment = comment,
               sc_commented_at = now\<rparr>]\<rparr>))"

text \<open>
  The plain insert into a link table (the object-relational program uses it after its
  own lookup), and \<^verbatim>\<open>INSERT ... ON CONFLICT (key) DO NOTHING\<close>: an existing row with
  the key leaves the table alone and counts zero rows.
\<close>

definition insert_into_playlist_songs ::
  "int \<Rightarrow> int \<Rightarrow> timestamp \<Rightarrow> db \<Rightarrow> pg_error + nat \<times> db" where
  "insert_into_playlist_songs playlist_id song_id now d =
     (if \<exists>r \<in> set (playlist_songs d). ps_playlist_id r = playlist_id \<and> ps_song_id r = song_id
      then Inl UniqueViolation
      else if \<not> playlist_exists d playlist_id \<or> \<not> song_exists d song_id
      then Inl ForeignKeyViolation
      else Inr (1, d\<lparr>playlist_songs := playlist_songs d @
             [\<lparr>ps_playlist_id = playlist_id, ps_song_id = song_id, ps_added_at = now\<rparr>]\<rparr>))"

definition insert_playlist_song_do_nothing ::
  "int \<Rightarrow> int \<Rightarrow> timestamp \<Rightarrow> db \<Rightarrow> pg_error + nat \<times> db" where
  "insert_playlist_song_do_nothing playlist_id song_id now d =
     (if \<exists>r \<in> set (playlist_songs d). ps_playlist_id r = playlist_id \<and> ps_song_id r = song_id
      then Inr (0, d)
      else insert_into_playlist_songs playlist_id song_id now d)"

definition insert_song_like_do_nothing ::
  "int \<Rightarrow> int \<Rightarrow> timestamp \<Rightarrow> db \<Rightarrow> pg_error + nat \<times> db" where
  "insert_song_like_do_nothing user_id song_id now d =
     (if \<exists>r \<in> set (song_likes d). sl_user_id r = user_id \<and> sl_song_id r = song_id
      then Inr (0, d)
      else if \<not> user_exists d user_id \<or> \<not> song_exists d song_id then Inl ForeignKeyViolation
      else Inr (1, d\<lparr>song_likes := song_likes d @
             [\<lparr>sl_user_id = user_id, sl_song_id = song_id, sl_liked_at = now\<rparr>]\<rparr>))"

definition insert_artist_follow_do_nothing ::
  "int \<Rightarrow> int \<Rightarrow> timestamp \<Rightarrow> db \<Rightarrow> pg_error + nat \<times> db" where
  "insert_artist_follow_do_nothing user_id artist_id now d =
     (if \<exists>r \<in> set (artist_follows d). af_user_id r = user_id \<and> af_artist_id r = artist_id
      then Inr (0, d)
      else if \<not> user_exists d user_id \<or> \<not> artist_exists d artist_id
      then Inl ForeignKeyViolation
      else Inr (1, d\<lparr>artist_follows := artist_follows d @
             [\<lparr>af_user_id = user_id, af_artist_id = artist_id, af_followed_at = now\<rparr>]\<rparr>))"

text \<open>
  The rating statements. \<^verbatim>\<open>CHECK (rating >= 1 AND rating <= 5)\<close> is tested on the
  proposed row first. \<^verbatim>\<open>ON CONFLICT (user_id, song_id) DO UPDATE SET rating =
  EXCLUDED.rating\<close> overwrites the rating of the row that holds the key.
\<close>

definition insert_into_song_ratings :: "int \<Rightarrow> int \<Rightarrow> int \<Rightarrow> db \<Rightarrow> pg_error + nat \<times> db" where
  "insert_into_song_ratings user_id song_id rating d =
     (if \<not> (rating \<ge> 1 \<and> rating \<le> 5) then Inl CheckViolation
      else if \<exists>r \<in> set (song_ratings d). sr_user_id r = user_id \<and> sr_song_id r = song_id
      then Inl UniqueViolation
      else if \<not> user_exists d user_id \<or> \<not> song_exists d song_id then Inl ForeignKeyViolation
      else Inr (1, d\<lparr>song_ratings := song_ratings d @
             [\<lparr>sr_user_id = user_id, sr_song_id = song_id, sr_rating = rating\<rparr>]\<rparr>))"

definition update_song_ratings ::
  "(song_rating_row \<Rightarrow> bool) \<Rightarrow> int \<Rightarrow> db \<Rightarrow> pg_error + nat \<times> db" where
  "update_song_ratings w rating d =
     (if filter w (song_ratings d) \<noteq> [] \<and> \<not> (rating \<ge> 1 \<and> rating \<le> 5) then Inl CheckViolation
      else Inr (length (filter w (song_ratings d)),
                d\<lparr>song_ratings :=
                    map (\<lambda>r. if w r then r\<lparr>sr_rating := rating\<rparr> else r) (song_ratings d)\<rparr>))"

definition insert_song_rating_do_update ::
  "int \<Rightarrow> int \<Rightarrow> int \<Rightarrow> db \<Rightarrow> pg_error + nat \<times> db" where
  "insert_song_rating_do_update user_id song_id rating d =
     (if \<not> (rating \<ge> 1 \<and> rating \<le> 5) then Inl CheckViolation
      else if \<exists>r \<in> set (song_ratings d). sr_user_id r = user_id \<and> sr_song_id r = song_id
      then update_song_ratings (\<lambda>r. sr_user_id r = user_id \<and> sr_song_id r = song_id) rating d
      else insert_into_song_ratings user_id song_id rating d)"

text \<open>
  \<^verbatim>\<open>UPDATE t SET ... WHERE w\<close>: \<open>f\<close> rewrites the rows \<open>w\<close> selects. A unique index
  refuses a rewritten row whose key another row of the new table holds; a foreign key
  that changed must point to an existing row.
\<close>

definition update_users ::
  "(user_row \<Rightarrow> bool) \<Rightarrow> (user_row \<Rightarrow> user_row) \<Rightarrow> db \<Rightarrow> pg_error + nat \<times> db" where
  "update_users w f d =
     (let new = map (\<lambda>r. if w r then f r else r) (users d) in
      if \<exists>r \<in> set (filter w (users d)).
           length (filter (\<lambda>x. u_username x = u_username (f r)) new) > 1 \<or>
           length (filter (\<lambda>x. u_email x = u_email (f r)) new) > 1
      then Inl UniqueViolation
      else Inr (length (filter w (users d)), d\<lparr>users := new\<rparr>))"

definition update_artists ::
  "(artist_row \<Rightarrow> bool) \<Rightarrow> (artist_row \<Rightarrow> artist_row) \<Rightarrow> db \<Rightarrow> pg_error + nat \<times> db" where
  "update_artists w f d =
     Inr (length (filter w (artists d)),
          d\<lparr>artists := map (\<lambda>r. if w r then f r else r) (artists d)\<rparr>)"

definition update_albums ::
  "(album_row \<Rightarrow> bool) \<Rightarrow> (album_row \<Rightarrow> album_row) \<Rightarrow> db \<Rightarrow> pg_error + nat \<times> db" where
  "update_albums w f d =
     (if \<exists>r \<in> set (filter w (albums d)).
           al_artist_id (f r) \<noteq> al_artist_id r \<and> \<not> artist_exists d (al_artist_id (f r))
      then Inl ForeignKeyViolation
      else Inr (length (filter w (albums d)),
                d\<lparr>albums := map (\<lambda>r. if w r then f r else r) (albums d)\<rparr>))"

definition update_songs ::
  "(song_row \<Rightarrow> bool) \<Rightarrow> (song_row \<Rightarrow> song_row) \<Rightarrow> db \<Rightarrow> pg_error + nat \<times> db" where
  "update_songs w f d =
     (if \<exists>r \<in> set (filter w (songs d)).
           s_album_id (f r) \<noteq> s_album_id r \<and> \<not> album_exists d (s_album_id (f r))
      then Inl ForeignKeyViolation
      else Inr (length (filter w (songs d)),
                d\<lparr>songs := map (\<lambda>r. if w r then f r else r) (songs d)\<rparr>))"

definition update_playlists ::
  "(playlist_row \<Rightarrow> bool) \<Rightarrow> (playlist_row \<Rightarrow> playlist_row) \<Rightarrow> db \<Rightarrow> pg_error + nat \<times> db" where
  "update_playlists w f d =
     (if \<exists>r \<in> set (filter w (playlists d)).
           p_user_id (f r) \<noteq> p_user_id r \<and> \<not> user_exists d (p_user_id (f r))
      then Inl ForeignKeyViolation
      else Inr (length (filter w (playlists d)),
                d\<lparr>playlists := map (\<lambda>r. if w r then f r else r) (playlists d)\<rparr>))"

text \<open>\<^verbatim>\<open>DELETE FROM t WHERE w\<close>, one definition per table; \<open>w\<close> is the WHERE clause.\<close>

definition delete_from_users :: "(user_row \<Rightarrow> bool) \<Rightarrow> db \<Rightarrow> pg_error + nat \<times> db" where
  "delete_from_users w d =
     (if \<exists>r \<in> set (filter w (users d)). user_referenced d (u_id r)
      then Inl ForeignKeyViolation
      else Inr (length (filter w (users d)), d\<lparr>users := filter (\<lambda>r. \<not> w r) (users d)\<rparr>))"

definition delete_from_artists :: "(artist_row \<Rightarrow> bool) \<Rightarrow> db \<Rightarrow> pg_error + nat \<times> db" where
  "delete_from_artists w d =
     (if \<exists>r \<in> set (filter w (artists d)). artist_referenced d (ar_id r)
      then Inl ForeignKeyViolation
      else Inr (length (filter w (artists d)), d\<lparr>artists := filter (\<lambda>r. \<not> w r) (artists d)\<rparr>))"

definition delete_from_albums :: "(album_row \<Rightarrow> bool) \<Rightarrow> db \<Rightarrow> pg_error + nat \<times> db" where
  "delete_from_albums w d =
     (if \<exists>r \<in> set (filter w (albums d)). album_referenced d (al_id r)
      then Inl ForeignKeyViolation
      else Inr (length (filter w (albums d)), d\<lparr>albums := filter (\<lambda>r. \<not> w r) (albums d)\<rparr>))"

definition delete_from_songs :: "(song_row \<Rightarrow> bool) \<Rightarrow> db \<Rightarrow> pg_error + nat \<times> db" where
  "delete_from_songs w d =
     (if \<exists>r \<in> set (filter w (songs d)). song_referenced d (s_id r)
      then Inl ForeignKeyViolation
      else Inr (length (filter w (songs d)), d\<lparr>songs := filter (\<lambda>r. \<not> w r) (songs d)\<rparr>))"

definition delete_from_playlists :: "(playlist_row \<Rightarrow> bool) \<Rightarrow> db \<Rightarrow> pg_error + nat \<times> db" where
  "delete_from_playlists w d =
     (if \<exists>r \<in> set (filter w (playlists d)). playlist_referenced d (p_id r)
      then Inl ForeignKeyViolation
      else Inr (length (filter w (playlists d)),
                d\<lparr>playlists := filter (\<lambda>r. \<not> w r) (playlists d)\<rparr>))"

definition delete_from_playlist_songs ::
  "(playlist_song_row \<Rightarrow> bool) \<Rightarrow> db \<Rightarrow> pg_error + nat \<times> db" where
  "delete_from_playlist_songs w d =
     Inr (length (filter w (playlist_songs d)),
          d\<lparr>playlist_songs := filter (\<lambda>r. \<not> w r) (playlist_songs d)\<rparr>)"

definition delete_from_play_history ::
  "(play_history_row \<Rightarrow> bool) \<Rightarrow> db \<Rightarrow> pg_error + nat \<times> db" where
  "delete_from_play_history w d =
     Inr (length (filter w (play_history d)),
          d\<lparr>play_history := filter (\<lambda>r. \<not> w r) (play_history d)\<rparr>)"

definition delete_from_song_ratings ::
  "(song_rating_row \<Rightarrow> bool) \<Rightarrow> db \<Rightarrow> pg_error + nat \<times> db" where
  "delete_from_song_ratings w d =
     Inr (length (filter w (song_ratings d)),
          d\<lparr>song_ratings := filter (\<lambda>r. \<not> w r) (song_ratings d)\<rparr>)"

definition delete_from_song_likes ::
  "(song_like_row \<Rightarrow> bool) \<Rightarrow> db \<Rightarrow> pg_error + nat \<times> db" where
  "delete_from_song_likes w d =
     Inr (length (filter w (song_likes d)),
          d\<lparr>song_likes := filter (\<lambda>r. \<not> w r) (song_likes d)\<rparr>)"

definition delete_from_artist_follows ::
  "(artist_follow_row \<Rightarrow> bool) \<Rightarrow> db \<Rightarrow> pg_error + nat \<times> db" where
  "delete_from_artist_follows w d =
     Inr (length (filter w (artist_follows d)),
          d\<lparr>artist_follows := filter (\<lambda>r. \<not> w r) (artist_follows d)\<rparr>)"

definition delete_from_song_comments ::
  "(song_comment_row \<Rightarrow> bool) \<Rightarrow> db \<Rightarrow> pg_error + nat \<times> db" where
  "delete_from_song_comments w d =
     Inr (length (filter w (song_comments d)),
          d\<lparr>song_comments := filter (\<lambda>r. \<not> w r) (song_comments d)\<rparr>)"

text \<open>
  The epilogue shared by the delete operations of the raw-query program: on an error
  \<^verbatim>\<open>conn.rollback()\<close> restores the state the operation started from; otherwise the
  transaction is committed and \<^verbatim>\<open>cur.rowcount\<close> of the last statement picks the message.
\<close>

definition report_delete :: "db \<Rightarrow> pg_error + nat \<times> db \<Rightarrow> outcome \<times> db" where
  "report_delete d0 r =
     (case r of
        Inl e \<Rightarrow> (DbError e, d0)
      | Inr (n, d) \<Rightarrow> (if n > 0 then Done else NotFound, d))"

section \<open>Prompts\<close>

text \<open>
  \<^verbatim>\<open>Prompt.ask(..., default=v)\<close> returns \<open>v\<close> when the operator enters nothing. For a
  number or a date the response is \<open>None\<close> when nothing was entered.
  \<^verbatim>\<open>Prompt.ask(..., choices=["1","2","3","4","5"])\<close> accepts one of the listed texts
  only; the rating is the number the accepted text spells.
\<close>

definition ask_default :: "string \<Rightarrow> string \<Rightarrow> string" where
  "ask_default v response = (if response = [] then v else response)"

definition ask_value :: "'a \<Rightarrow> 'a option \<Rightarrow> 'a" where
  "ask_value v response = (case response of None \<Rightarrow> v | Some x \<Rightarrow> x)"

definition rating_choices :: "(string \<times> int) list" where
  "rating_choices = [(''1'', 1), (''2'', 2), (''3'', 3), (''4'', 4), (''5'', 5)]"

text \<open>
  What every operation of the raw-query program does with the result of its single
  statement: an error is printed and the connection closed without a commit.
\<close>

definition report :: "db \<Rightarrow> pg_error + nat \<times> db \<Rightarrow> outcome \<times> db" where
  "report d0 r = (case r of Inl e \<Rightarrow> (DbError e, d0) | Inr (n, d) \<Rightarrow> (Done, d))"

definition report_added :: "db \<Rightarrow> pg_error + nat \<times> db \<Rightarrow> outcome \<times> db" where
  "report_added d0 r =
     (case r of
        Inl e \<Rightarrow> (DbError e, d0)
      | Inr (n, d) \<Rightarrow> (if n > 0 then Done else AlreadyExists, d))"

section \<open>The raw-query program: create and update operations\<close>

definition add_user :: "db \<Rightarrow> string \<Rightarrow> string \<Rightarrow> string \<Rightarrow> timestamp \<Rightarrow> outcome \<times> db" where
  "add_user d username email password now =
     (case sbind (varchar 50 username) (\<lambda>u. sbind (varchar 100 email) (\<lambda>e. Inr (u, e))) of
        Inl err \<Rightarrow> (DbError err, d)
      | Inr (u, e) \<Rightarrow>
          (case nextval_users d of (i, d1) \<Rightarrow>
             report d1 (insert_into_users i u e password now d1)))"

definition update_user :: "db \<Rightarrow> int \<Rightarrow> string \<Rightarrow> string \<Rightarrow> string \<Rightarrow> outcome \<times> db" where
  "update_user d user_id username_in email_in password_in =
     (case find (\<lambda>r. u_id r = user_id) (users d) of
        None \<Rightarrow> (NotFound, d)
      | Some user \<Rightarrow>
          (let username = ask_default (u_username user) username_in;
               email = ask_default (u_email user) email_in;
               password = ask_default [] password_in
           in report d
                (sbind (varchar 50 username) (\<lambda>u. sbind (varchar 100 email) (\<lambda>e.
                   if password \<noteq> []
                   then update_users (\<lambda>r. u_id r = user_id)
                          (\<lambda>r. r\<lparr>u_username := u, u_email := e, u_password := password\<rparr>) d
                   else update_users (\<lambda>r. u_id r = user_id)
                          (\<lambda>r. r\<lparr>u_username := u, u_email := e\<rparr>) d)))))"

definition add_artist :: "db \<Rightarrow> string \<Rightarrow> string \<Rightarrow> outcome \<times> db" where
  "add_artist d name bio_in =
     (let bio = ask_default [] bio_in in
      case varchar 100 name of
        Inl err \<Rightarrow> (DbError err, d)
      | Inr n \<Rightarrow>
          (case nextval_artists d of (i, d1) \<Rightarrow>
             report d1 (insert_into_artists i n (Some bio) d1)))"

definition update_artist :: "db \<Rightarrow> int \<Rightarrow> string \<Rightarrow> string \<Rightarrow> outcome \<times> db" where
  "update_artist d artist_id name_in bio_in =
     (case find (\<lambda>r. ar_id r = artist_id) (artists d) of
        None \<Rightarrow> (NotFound, d)
      | Some artist \<Rightarrow>
          (let name = ask_default (ar_name artist) name_in;
               bio = ask_default (case ar_bio artist of None \<Rightarrow> [] | Some b \<Rightarrow> b) bio_in
           in report d
                (sbind (varchar 100 name) (\<lambda>n.
                   update_artists (\<lambda>r. ar_id r = artist_id)
                     (\<lambda>r. r\<lparr>ar_name := n, ar_bio := Some bio\<rparr>) d))))"

definition add_album :: "db \<Rightarrow> int \<Rightarrow> string \<Rightarrow> date option \<Rightarrow> outcome \<times> db" where
  "add_album d artist_id title release_date =
     (case varchar 100 title of
        Inl err \<Rightarrow> (DbError err, d)
      | Inr t \<Rightarrow>
          (case nextval_albums d of (i, d1) \<Rightarrow>
             report d1
               (case release_date of
                  Some day \<Rightarrow> insert_into_albums i t artist_id (Some day) d1
                | None \<Rightarrow> insert_into_albums i t artist_id None d1)))"

text \<open>
  \<^verbatim>\<open>update_album\<close>, \<^verbatim>\<open>update_song\<close> and \<^verbatim>\<open>update_playlist\<close> read the current row
  through a JOIN with its parent table: a row whose parent is missing is not found.
\<close>

definition update_album ::
  "db \<Rightarrow> int \<Rightarrow> string \<Rightarrow> int option \<Rightarrow> date option \<Rightarrow> outcome \<times> db" where
  "update_album d album_id title_in artist_id_in release_date_in =
     (case find (\<lambda>r. al_id r = album_id \<and> artist_exists d (al_artist_id r)) (albums d) of
        None \<Rightarrow> (NotFound, d)
      | Some album \<Rightarrow>
          (let title = ask_default (al_title album) title_in;
               artist_id = ask_value (al_artist_id album) artist_id_in;
               release_date =
                 (case release_date_in of None \<Rightarrow> al_release_date album | Some day \<Rightarrow> Some day)
           in report d
                (sbind (varchar 100 title) (\<lambda>t.
                   update_albums (\<lambda>r. al_id r = album_id)
                     (\<lambda>r. r\<lparr>al_title := t, al_artist_id := artist_id,
                            al_release_date := release_date\<rparr>) d))))"

definition add_song :: "db \<Rightarrow> int \<Rightarrow> string \<Rightarrow> int option \<Rightarrow> string \<Rightarrow> outcome \<times> db" where
  "add_song d album_id title duration_in file_path =
     (let duration = ask_value 0 duration_in in
      case varchar 100 title of
        Inl err \<Rightarrow> (DbError err, d)
      | Inr t \<Rightarrow>
          (case nextval_songs d of (i, d1) \<Rightarrow>
             report d1 (insert_into_songs i t album_id (Some duration) file_path d1)))"

definition update_song ::
  "db \<Rightarrow> int \<Rightarrow> string \<Rightarrow> int option \<Rightarrow> int option \<Rightarrow> string \<Rightarrow> outcome \<times> db" where
  "update_song d song_id title_in album_id_in duration_in file_path_in =
     (case find (\<lambda>r. s_id r = song_id \<and> album_exists d (s_album_id r)) (songs d) of
        None \<Rightarrow> (NotFound, d)
      | Some song \<Rightarrow>
          (let title = ask_default (s_title song) title_in;
               album_id = ask_value (s_album_id song) album_id_in;
               duration =
                 ask_value (case s_duration song of
                              None \<Rightarrow> 0
                            | Some n \<Rightarrow> (if n \<noteq> 0 then n else 0)) duration_in;
               file_path = ask_default (s_file_path song) file_path_in
           in report d
                (sbind (varchar 100 title) (\<lambda>t.
                   update_songs (\<lambda>r. s_id r = song_id)
                     (\<lambda>r. r\<lparr>s_title := t, s_album_id := album_id, s_duration := Some duration,
                            s_file_path := file_path\<rparr>) d))))"

definition add_playlist :: "db \<Rightarrow> int \<Rightarrow> string \<Rightarrow> outcome \<times> db" where
  "add_playlist d user_id name =
     (case varchar 100 name of
        Inl err \<Rightarrow> (DbError err, d)
      | Inr n \<Rightarrow>
          (case nextval_playlists d of (i, d1) \<Rightarrow>
             report d1 (insert_into_playlists i n user_id d1)))"

definition update_playlist :: "db \<Rightarrow> int \<Rightarrow> string \<Rightarrow> int option \<Rightarrow> outcome \<times> db" where
  "update_playlist d playlist_id name_in user_id_in =
     (case find (\<lambda>r. p_id r = playlist_id \<and> user_exists d (p_user_id r)) (playlists d) of
        None \<Rightarrow> (NotFound, d)
      | Some playlist \<Rightarrow>
          (let name = ask_default (p_name playlist) name_in;
               user_id = ask_value (p_user_id playlist) user_id_in
           in report d
                (sbind (varchar 100 name) (\<lambda>n.
                   update_playlists (\<lambda>r. p_id r = playlist_id)
                     (\<lambda>r. r\<lparr>p_name := n, p_user_id := user_id\<rparr>) d))))"

definition add_song_to_playlist :: "db \<Rightarrow> int \<Rightarrow> int \<Rightarrow> timestamp \<Rightarrow> outcome \<times> db" where
  "add_song_to_playlist d playlist_id song_id now =
     report_added d (insert_playlist_song_do_nothing playlist_id song_id now d)"

definition add_update_rating :: "db \<Rightarrow> int \<Rightarrow> int \<Rightarrow> string \<Rightarrow> outcome \<times> db" where
  "add_update_rating d user_id song_id rating_in =
     (case map_of rating_choices rating_in of
        None \<Rightarrow> (InvalidChoice, d)
      | Some rating \<Rightarrow> report d (insert_song_rating_do_update user_id song_id rating d))"

definition add_song_like :: "db \<Rightarrow> int \<Rightarrow> int \<Rightarrow> timestamp \<Rightarrow> outcome \<times> db" where
  "add_song_like d user_id song_id now =
     report_added d (insert_song_like_do_nothing user_id song_id now d)"

definition add_artist_follow :: "db \<Rightarrow> int \<Rightarrow> int \<Rightarrow> timestamp \<Rightarrow> outcome \<times> db" where
  "add_artist_follow d user_id artist_id now =
     report_added d (insert_artist_follow_do_nothing user_id artist_id now d)"

definition add_song_comment :: "db \<Rightarrow> int \<Rightarrow> int \<Rightarrow> string \<Rightarrow> timestamp \<Rightarrow> outcome \<times> db" where
  "add_song_comment d user_id song_id comment now =
     (case nextval_song_comments d of (i, d1) \<Rightarrow>
        report d1 (insert_into_song_comments i user_id song_id comment now d1))"

section \<open>The raw-query program: delete operations\<close>

definition delete_user :: "db \<Rightarrow> int \<Rightarrow> bool \<Rightarrow> outcome \<times> db" where
  "delete_user d user_id confirm =
     (if \<not> confirm then (Cancelled, d)
      else report_delete d
        (sbind (delete_from_playlists (\<lambda>r. p_user_id r = user_id) d) (\<lambda>(_, d1).
         sbind (delete_from_play_history (\<lambda>r. ph_user_id r = user_id) d1) (\<lambda>(_, d2).
         sbind (delete_from_song_ratings (\<lambda>r. sr_user_id r = user_id) d2) (\<lambda>(_, d3).
         delete_from_users (\<lambda>r. u_id r = user_id) d3)))))"

definition delete_artist :: "db \<Rightarrow> int \<Rightarrow> bool \<Rightarrow> outcome \<times> db" where
  "delete_artist d artist_id confirm =
     (if \<not> confirm then (Cancelled, d)
      else if length (filter (\<lambda>r. al_artist_id r = artist_id) (albums d)) > 0
      then (CannotDelete, d)
      else report_delete d (delete_from_artists (\<lambda>r. ar_id r = artist_id) d))"

definition delete_album :: "db \<Rightarrow> int \<Rightarrow> bool \<Rightarrow> outcome \<times> db" where
  "delete_album d album_id confirm =
     (if \<not> confirm then (Cancelled, d)
      else if length (filter (\<lambda>r. s_album_id r = album_id) (songs d)) > 0
      then (CannotDelete, d)
      else report_delete d (delete_from_albums (\<lambda>r. al_id r = album_id) d))"

definition delete_song :: "db \<Rightarrow> int \<Rightarrow> bool \<Rightarrow> outcome \<times> db" where
  "delete_song d song_id confirm =
     (if \<not> confirm then (Cancelled, d)
      else report_delete d
        (sbind (delete_from_playlist_songs (\<lambda>r. ps_song_id r = song_id) d) (\<lambda>(_, d1).
         sbind (delete_from_play_history (\<lambda>r. ph_song_id r = song_id) d1) (\<lambda>(_, d2).
         sbind (delete_from_song_ratings (\<lambda>r. sr_song_id r = song_id) d2) (\<lambda>(_, d3).
         delete_from_songs (\<lambda>r. s_id r = song_id) d3)))))"

definition delete_playlist :: "db \<Rightarrow> int \<Rightarrow> bool \<Rightarrow> outcome \<times> db" where
  "delete_playlist d playlist_id confirm =
     (if \<not> confirm then (Cancelled, d)
      else report_delete d
        (sbind (delete_from_playlist_songs (\<lambda>r. ps_playlist_id r = playlist_id) d) (\<lambda>(_, d1).
         delete_from_playlists (\<lambda>r. p_id r = playlist_id) d1)))"

definition remove_song_from_playlist :: "db \<Rightarrow> int \<Rightarrow> int \<Rightarrow> bool \<Rightarrow> outcome \<times> db" where
  "remove_song_from_playlist d playlist_id song_id confirm =
     (if \<not> confirm then (Cancelled, d)
      else report_delete d
        (delete_from_playlist_songs
           (\<lambda>r. ps_playlist_id r = playlist_id \<and> ps_song_id r = song_id) d))"

definition delete_rating :: "db \<Rightarrow> int \<Rightarrow> int \<Rightarrow> bool \<Rightarrow> outcome \<times> db" where
  "delete_rating d user_id song_id confirm =
     (if \<not> confirm then (Cancelled, d)
      else report_delete d
        (delete_from_song_ratings (\<lambda>r. sr_user_id r = user_id \<and> sr_song_id r = song_id) d))"

definition delete_song_like :: "db \<Rightarrow> int \<Rightarrow> int \<Rightarrow> outcome \<times> db" where
  "delete_song_like d user_id song_id =
     report_delete d
       (delete_from_song_likes (\<lambda>r. sl_user_id r = user_id \<and> sl_song_id r = song_id) d)"

definition delete_artist_follow :: "db \<Rightarrow> int \<Rightarrow> int \<Rightarrow> outcome \<times> db" where
  "delete_artist_follow d user_id artist_id =
     report_delete d
       (delete_from_artist_follows
          (\<lambda>r. af_user_id r = user_id \<and> af_artist_id r = artist_id) d)"

definition delete_song_comment :: "db \<Rightarrow> int \<Rightarrow> outcome \<times> db" where
  "delete_song_comment d comment_id =
     report_delete d (delete_from_song_comments (\<lambda>r. sc_id r = comment_id) d)"

section \<open>The object-relational program\<close>

text \<open>
  \<^verbatim>\<open>validate_input\<close>. A \<open>char\<close> stands for one code point below 256, so \<open>length\<close>
  is Python's \<^verbatim>\<open>len\<close>; \<open>is_space\<close> lists the code points below 256 that
  \<^verbatim>\<open>str.strip()\<close> removes. \<open>contains p s\<close> is Python's \<^verbatim>\<open>p in s\<close> on strings.
  The patterns are \<^verbatim>\<open>;\<close>, \<^verbatim>\<open>--\<close>, \<^verbatim>\<open>/*\<close>, \<^verbatim>\<open>*/\<close>, the single quote (0x27), the double
  quote (0x22) and the backslash (0x5C).
\<close>

definition is_space :: "char \<Rightarrow> bool" where
  "is_space c \<longleftrightarrow> (of_char c :: nat) \<in> {9, 10, 11, 12, 13, 28, 29, 30, 31, 32, 133, 160}"

definition strip :: "string \<Rightarrow> string" where
  "strip s = rev (dropWhile is_space (rev (dropWhile is_space s)))"

fun contains :: "string \<Rightarrow> string \<Rightarrow> bool" where
  "contains p [] = (p = [])"
| "contains p (c # cs) = (prefix p (c # cs) \<or> contains p cs)"

definition forbidden :: "string list" where
  "forbidden = ['';'', ''--'', ''/*'', ''*/'', [CHR 0x27], [CHR 0x22], [CHR 0x5C]]"

definition validate_input :: "string \<Rightarrow> nat \<Rightarrow> bool \<Rightarrow> value_error + string" where
  "validate_input text max_length allow_empty =
     (if \<not> allow_empty \<and> strip text = [] then Inl InputEmpty
      else if length text > max_length then Inl InputTooLong
      else if \<exists>p \<in> set forbidden. contains p text then Inl InvalidCharacters
      else Inr (strip text))"

text \<open>
  The operations. Each validates its texts first (a ValueError ends the operation with
  "Validation error"), then works in a session; any exception inside the session is
  rolled back and reported as "Database error".
\<close>

definition report_orm :: "db \<Rightarrow> value_error + outcome \<times> db \<Rightarrow> outcome \<times> db" where
  "report_orm d0 r = (case r of Inl e \<Rightarrow> (ValidationError e, d0) | Inr x \<Rightarrow> x)"

definition add_user_orm ::
  "db \<Rightarrow> string \<Rightarrow> string \<Rightarrow> string \<Rightarrow> timestamp \<Rightarrow> outcome \<times> db" where
  "add_user_orm d username_in email_in password_in now =
     report_orm d
       (sbind (validate_input username_in 100 False) (\<lambda>username.
        sbind (validate_input email_in 100 False) (\<lambda>email.
        sbind (validate_input password_in 100 False) (\<lambda>password.
        Inr (if \<exists>r \<in> set (users d). u_username r = username \<or> u_email r = email
             then (UsernameOrEmailExists, d)
             else (case sbind (varchar 50 username) (\<lambda>u.
                        sbind (varchar 100 email) (\<lambda>e. Inr (u, e))) of
                     Inl err \<Rightarrow> (DbError err, d)
                   | Inr (u, e) \<Rightarrow>
                       (case nextval_users d of (i, d1) \<Rightarrow>
                          report d1 (insert_into_users i u e password now d1))))))))"

text \<open>
  The five update operations pass \<^verbatim>\<open>default=\<close> to \<^verbatim>\<open>validate_input\<close>, which has no
  such parameter: once the row is found, the first prompt is answered and the call
  raises TypeError inside the session.
\<close>

definition update_user_orm :: "db \<Rightarrow> int \<Rightarrow> outcome \<times> db" where
  "update_user_orm d user_id =
     (case find (\<lambda>r. u_id r = user_id) (users d) of
        None \<Rightarrow> (NotFound, d)
      | Some user \<Rightarrow> (PyTypeError, d))"

definition delete_user_orm :: "db \<Rightarrow> int \<Rightarrow> bool \<Rightarrow> outcome \<times> db" where
  "delete_user_orm d user_id confirm =
     (if \<not> confirm then (Cancelled, d)
      else case find (\<lambda>r. u_id r = user_id) (users d) of
        None \<Rightarrow> (NotFound, d)
      | Some user \<Rightarrow>
          report d
            (sbind (delete_from_playlists (\<lambda>r. p_user_id r = u_id user) d) (\<lambda>(_, d1).
             sbind (delete_from_play_history (\<lambda>r. ph_user_id r = u_id user) d1) (\<lambda>(_, d2).
             sbind (delete_from_song_ratings (\<lambda>r. sr_user_id r = u_id user) d2) (\<lambda>(_, d3).
             delete_from_users (\<lambda>r. u_id r = u_id user) d3)))))"

definition add_artist_orm :: "db \<Rightarrow> string \<Rightarrow> string \<Rightarrow> outcome \<times> db" where
  "add_artist_orm d name_in bio_in =
     report_orm d
       (sbind (validate_input name_in 100 False) (\<lambda>name.
        sbind (validate_input (ask_default [] bio_in) 100 True) (\<lambda>bio.
        Inr (case varchar 100 name of
               Inl err \<Rightarrow> (DbError err, d)
             | Inr n \<Rightarrow>
                 (case nextval_artists d of (i, d1) \<Rightarrow>
                    report d1
                      (insert_into_artists i n (if bio \<noteq> [] then Some bio else None) d1))))))"

definition update_artist_orm :: "db \<Rightarrow> int \<Rightarrow> outcome \<times> db" where
  "update_artist_orm d artist_id =
     (case find (\<lambda>r. ar_id r = artist_id) (artists d) of
        None \<Rightarrow> (NotFound, d)
      | Some artist \<Rightarrow> (PyTypeError, d))"

definition delete_artist_orm :: "db \<Rightarrow> int \<Rightarrow> bool \<Rightarrow> outcome \<times> db" where
  "delete_artist_orm d artist_id confirm =
     (if \<not> confirm then (Cancelled, d)
      else case find (\<lambda>r. ar_id r = artist_id) (artists d) of
        None \<Rightarrow> (NotFound, d)
      | Some artist \<Rightarrow>
          if length (filter (\<lambda>r. al_artist_id r = ar_id artist) (albums d)) > 0
          then (CannotDelete, d)
          else report d (delete_from_artists (\<lambda>r. ar_id r = ar_id artist) d))"

definition add_album_orm :: "db \<Rightarrow> int \<Rightarrow> string \<Rightarrow> date option \<Rightarrow> outcome \<times> db" where
  "add_album_orm d artist_id title_in release_date =
     report_orm d
       (sbind (validate_input title_in 100 False) (\<lambda>title.
        Inr (if \<not> artist_exists d artist_id then (NotFound, d)
             else case varchar 100 title of
               Inl err \<Rightarrow> (DbError err, d)
             | Inr t \<Rightarrow>
                 (case nextval_albums d of (i, d1) \<Rightarrow>
                    report d1 (insert_into_albums i t artist_id release_date d1)))))"

definition update_album_orm :: "db \<Rightarrow> int \<Rightarrow> outcome \<times> db" where
  "update_album_orm d album_id =
     (case find (\<lambda>r. al_id r = album_id) (albums d) of
        None \<Rightarrow> (NotFound, d)
      | Some album \<Rightarrow> (PyTypeError, d))"

definition delete_album_orm :: "db \<Rightarrow> int \<Rightarrow> bool \<Rightarrow> outcome \<times> db" where
  "delete_album_orm d album_id confirm =
     (if \<not> confirm then (Cancelled, d)
      else case find (\<lambda>r. al_id r = album_id) (albums d) of
        None \<Rightarrow> (NotFound, d)
      | Some album \<Rightarrow>
          if length (filter (\<lambda>r. s_album_id r = al_id album) (songs d)) > 0
          then (CannotDelete, d)
          else report d (delete_from_albums (\<lambda>r. al_id r = al_id album) d))"

definition add_song_orm ::
  "db \<Rightarrow> int \<Rightarrow> string \<Rightarrow> int option \<Rightarrow> string \<Rightarrow> outcome \<times> db" where
  "add_song_orm d album_id title_in duration_in file_path_in =
     report_orm d
       (sbind (validate_input title_in 100 False) (\<lambda>title.
        let duration = ask_value 0 duration_in in
        sbind (validate_input file_path_in 100 False) (\<lambda>file_path.
        Inr (if \<not> album_exists d album_id then (NotFound, d)
             else case varchar 100 title of
               Inl err \<Rightarrow> (DbError err, d)
             | Inr t \<Rightarrow>
                 (case nextval_songs d of (i, d1) \<Rightarrow>
                    report d1 (insert_into_songs i t album_id (Some duration) file_path d1))))))"

definition update_song_orm :: "db \<Rightarrow> int \<Rightarrow> outcome \<times> db" where
  "update_song_orm d song_id =
     (case find (\<lambda>r. s_id r = song_id) (songs d) of
        None \<Rightarrow> (NotFound, d)
      | Some song \<Rightarrow> (PyTypeError, d))"

definition delete_song_orm :: "db \<Rightarrow> int \<Rightarrow> bool \<Rightarrow> outcome \<times> db" where
  "delete_song_orm d song_id confirm =
     (if \<not> confirm then (Cancelled, d)
      else case find (\<lambda>r. s_id r = song_id) (songs d) of
        None \<Rightarrow> (NotFound, d)
      | Some song \<Rightarrow>
          report d
            (sbind (delete_from_playlist_songs (\<lambda>r. ps_song_id r = s_id song) d) (\<lambda>(_, d1).
             sbind (delete_from_play_history (\<lambda>r. ph_song_id r = s_id song) d1) (\<lambda>(_, d2).
             sbind (delete_from_song_ratings (\<lambda>r. sr_song_id r = s_id song) d2) (\<lambda>(_, d3).
             delete_from_songs (\<lambda>r. s_id r = s_id song) d3)))))"

definition add_playlist_orm :: "db \<Rightarrow> int \<Rightarrow> string \<Rightarrow> outcome \<times> db" where
  "add_playlist_orm d user_id name_in =
     report_orm d
       (sbind (validate_input name_in 100 False) (\<lambda>name.
        Inr (if \<not> user_exists d user_id then (NotFound, d)
             else case varchar 100 name of
               Inl err \<Rightarrow> (DbError err, d)
             | Inr n \<Rightarrow>
                 (case nextval_playlists d of (i, d1) \<Rightarrow>
                    report d1 (insert_into_playlists i n user_id d1)))))"

definition update_playlist_orm :: "db \<Rightarrow> int \<Rightarrow> outcome \<times> db" where
  "update_playlist_orm d playlist_id =
     (case find (\<lambda>r. p_id r = playlist_id) (playlists d) of
        None \<Rightarrow> (NotFound, d)
      | Some playlist \<Rightarrow> (PyTypeError, d))"

definition delete_playlist_orm :: "db \<Rightarrow> int \<Rightarrow> bool \<Rightarrow> outcome \<times> db" where
  "delete_playlist_orm d playlist_id confirm =
     (if \<not> confirm then (Cancelled, d)
      else case find (\<lambda>r. p_id r = playlist_id) (playlists d) of
        None \<Rightarrow> (NotFound, d)
      | Some playlist \<Rightarrow>
          report d
            (sbind (delete_from_playlist_songs (\<lambda>r. ps_playlist_id r = p_id playlist) d)
               (\<lambda>(_, d1). delete_from_playlists (\<lambda>r. p_id r = p_id playlist) d1)))"

definition add_song_to_playlist_orm :: "db \<Rightarrow> int \<Rightarrow> int \<Rightarrow> timestamp \<Rightarrow> outcome \<times> db" where
  "add_song_to_playlist_orm d playlist_id song_id now =
     (if \<not> playlist_exists d playlist_id then (NotFound, d)
      else if \<not> song_exists d song_id then (NotFound, d)
      else if \<exists>r \<in> set (playlist_songs d).
                ps_playlist_id r = playlist_id \<and> ps_song_id r = song_id
      then (AlreadyExists, d)
      else report d (insert_into_playlist_songs playlist_id song_id now d))"

definition remove_song_from_playlist_orm :: "db \<Rightarrow> int \<Rightarrow> int \<Rightarrow> bool \<Rightarrow> outcome \<times> db" where
  "remove_song_from_playlist_orm d playlist_id song_id confirm =
     (if \<not> confirm then (Cancelled, d)
      else report_delete d
        (delete_from_playlist_songs
           (\<lambda>r. ps_playlist_id r = playlist_id \<and> ps_song_id r = song_id) d))"

definition add_update_rating_orm :: "db \<Rightarrow> int \<Rightarrow> int \<Rightarrow> string \<Rightarrow> outcome \<times> db" where
  "add_update_rating_orm d user_id song_id rating_in =
     (if rating_in \<notin> set (map fst rating_choices) then (InvalidChoice, d)
      else report_orm d
        (sbind (validate_input rating_in 1 False) (\<lambda>t.
         sbind (case map_of rating_choices t of
                  None \<Rightarrow> Inl InvalidLiteral
                | Some n \<Rightarrow> Inr n) (\<lambda>rating.
         Inr (if \<not> user_exists d user_id then (NotFound, d)
              else if \<not> song_exists d song_id then (NotFound, d)
              else report d
                (if \<exists>r \<in> set (song_ratings d). sr_user_id r = user_id \<and> sr_song_id r = song_id
                 then update_song_ratings
                        (\<lambda>r. sr_user_id r = user_id \<and> sr_song_id r = song_id) rating d
                 else insert_into_song_ratings user_id song_id rating d))))))"

definition delete_rating_orm :: "db \<Rightarrow> int \<Rightarrow> int \<Rightarrow> bool \<Rightarrow> outcome \<times> db" where
  "delete_rating_orm d user_id song_id confirm =
     (if \<not> confirm then (Cancelled, d)
      else report_delete d
        (delete_from_song_ratings (\<lambda>r. sr_user_id r = user_id \<and> sr_song_id r = song_id) d))"

section \<open>A sample catalogue\<close>

text \<open>
  One user, one artist with one album and one song, one playlist holding the song, and
  one rating, like, follow and comment of the user.
\<close>

definition demo_db :: db where
  "demo_db = \<lparr>
     users = [\<lparr>u_id = 1, u_username = ''alice'', u_email = ''alice@example.org'',
               u_password = ''secret'', u_created_at = 10\<rparr>],
     artists = [\<lparr>ar_id = 1, ar_name = ''A'', ar_bio = Some []\<rparr>],
     albums = [\<lparr>al_id = 1, al_title = ''X'', al_artist_id = 1, al_release_date = None\<rparr>],
     songs = [\<lparr>s_id = 1, s_title = ''S1'', s_album_id = 1, s_duration = Some 0,
               s_file_path = ''s1.mp3''\<rparr>],
     playlists = [\<lparr>p_id = 1, p_name = ''P'', p_user_id = 1\<rparr>],
     playlist_songs = [\<lparr>ps_playlist_id = 1, ps_song_id = 1, ps_added_at = 11\<rparr>],
     play_history = [],
     song_ratings = [\<lparr>sr_user_id = 1, sr_song_id = 1, sr_rating = 4\<rparr>],
     song_likes = [\<lparr>sl_user_id = 1, sl_song_id = 1, sl_liked_at = 12\<rparr>],
     artist_follows = [\<lparr>af_user_id = 1, af_artist_id = 1, af_followed_at = 13\<rparr>],
     song_comments = [\<lparr>sc_id = 1, sc_user_id = 1, sc_song_id = 1, sc_comment = ''nice'',
                       sc_commented_at = 14\<rparr>],
     users_id_seq = 1, artists_id_seq = 1, albums_id_seq = 1, songs_id_seq = 1,
     playlists_id_seq = 1, song_comments_id_seq = 1\<rparr>"

text \<open>The sample catalogue without its playlist entry, like and follow.\<close>

definition bare_db :: db where
  "bare_db = demo_db\<lparr>playlist_songs := [], song_likes := [], artist_follows := []\<rparr>"

text \<open>What both programs leave behind after a rating in range for an existing pair.\<close>

definition rated :: "db \<Rightarrow> int \<Rightarrow> int \<Rightarrow> int \<Rightarrow> db \<Rightarrow> bool" where
  "rated d u s v d' \<longleftrightarrow>
     user_exists d' u \<and> song_exists d' s
     \<and> distinct (map (\<lambda>r. (sr_user_id r, sr_song_id r)) (song_ratings d'))
     \<and> filter (\<lambda>r. sr_user_id r = u \<and> sr_song_id r = s) (song_ratings d')
         = [\<lparr>sr_user_id = u, sr_song_id = s, sr_rating = v\<rparr>]"

section \<open>Operations as data\<close>

text \<open>
  The write operations of each program with their inputs, as the sub-menus call them,
  and the database after a sequence of them. Both programs work on the same database,
  so a history may mix them.
\<close>

datatype raw_op =
    Add_user string string string timestamp
  | Update_user int string string string
  | Delete_user int bool
  | Add_artist string string
  | Update_artist int string string
  | Delete_artist int bool
  | Add_album int string "date option"
  | Update_album int string "int option" "date option"
  | Delete_album int bool
  | Add_song int string "int option" string
  | Update_song int string "int option" "int option" string
  | Delete_song int bool
  | Add_playlist int string
  | Update_playlist int string "int option"
  | Delete_playlist int bool
  | Add_song_to_playlist int int timestamp
  | Remove_song_from_playlist int int bool
  | Add_update_rating int int string
  | Delete_rating int int bool
  | Add_song_like int int timestamp
  | Delete_song_like int int
  | Add_artist_follow int int timestamp
  | Delete_artist_follow int int
  | Add_song_comment int int string timestamp
  | Delete_song_comment int

fun raw_step :: "db \<Rightarrow> raw_op \<Rightarrow> outcome \<times> db" where
  "raw_step d (Add_user username email password now) = add_user d username email password now"
| "raw_step d (Update_user i username email password) = update_user d i username email password"
| "raw_step d (Delete_user i c) = delete_user d i c"
| "raw_step d (Add_artist name bio) = add_artist d name bio"
| "raw_step d (Update_artist i name bio) = update_artist d i name bio"
| "raw_step d (Delete_artist i c) = delete_artist d i c"
| "raw_step d (Add_album a title day) = add_album d a title day"
| "raw_step d (Update_album i title a day) = update_album d i title a day"
| "raw_step d (Delete_album i c) = delete_album d i c"
| "raw_step d (Add_song a title duration path) = add_song d a title duration path"
| "raw_step d (Update_song i title a duration path) = update_song d i title a duration path"
| "raw_step d (Delete_song i c) = delete_song d i c"
| "raw_step d (Add_playlist u name) = add_playlist d u name"
| "raw_step d (Update_playlist i name u) = update_playlist d i name u"
| "raw_step d (Delete_playlist i c) = delete_playlist d i c"
| "raw_step d (Add_song_to_playlist p s now) = add_song_to_playlist d p s now"
| "raw_step d (Remove_song_from_playlist p s c) = remove_song_from_playlist d p s c"
| "raw_step d (Add_update_rating u s t) = add_update_rating d u s t"
| "raw_step d (Delete_rating u s c) = delete_rating d u s c"
| "raw_step d (Add_song_like u s now) = add_song_like d u s now"
| "raw_step d (Delete_song_like u s) = delete_song_like d u s"
| "raw_step d (Add_artist_follow u a now) = add_artist_follow d u a now"
| "raw_step d (Delete_artist_follow u a) = delete_artist_follow d u a"
| "raw_step d (Add_song_comment u s comment now) = add_song_comment d u s comment now"
| "raw_step d (Delete_song_comment i) = delete_song_comment d i"

datatype orm_op =
    Orm_add_user string string string timestamp
  | Orm_update_user int
  | Orm_delete_user int bool
  | Orm_add_artist string string
  | Orm_update_artist int
  | Orm_delete_artist int bool
  | Orm_add_album int string "date option"
  | Orm_update_album int
  | Orm_delete_album int bool
  | Orm_add_song int string "int option" string
  | Orm_update_song int
  | Orm_delete_song int bool
  | Orm_add_playlist int string
  | Orm_update_playlist int
  | Orm_delete_playlist int bool
  | Orm_add_song_to_playlist int int timestamp
  | Orm_remove_song_from_playlist int int bool
  | Orm_add_update_rating int int string
  | Orm_delete_rating int int bool

fun orm_step :: "db \<Rightarrow> orm_op \<Rightarrow> outcome \<times> db" where
  "orm_step d (Orm_add_user username email password now) =
     add_user_orm d username email password now"
| "orm_step d (Orm_update_user i) = update_user_orm d i"
| "orm_step d (Orm_delete_user i c) = delete_user_orm d i c"
| "orm_step d (Orm_add_artist name bio) = add_artist_orm d name bio"
| "orm_step d (Orm_update_artist i) = update_artist_orm d i"
| "orm_step d (Orm_delete_artist i c) = delete_artist_orm d i c"
| "orm_step d (Orm_add_album a title day) = add_album_orm d a title day"
| "orm_step d (Orm_update_album i) = update_album_orm d i"
| "orm_step d (Orm_delete_album i c) = delete_album_orm d i c"
| "orm_step d (Orm_add_song a title duration path) = add_song_orm d a title duration path"
| "orm_step d (Orm_update_song i) = update_song_orm d i"
| "orm_step d (Orm_delete_song i c) = delete_song_orm d i c"
| "orm_step d (Orm_add_playlist u name) = add_playlist_orm d u name"
| "orm_step d (Orm_update_playlist i) = update_playlist_orm d i"
| "orm_step d (Orm_delete_playlist i c) = delete_playlist_orm d i c"
| "orm_step d (Orm_add_song_to_playlist p s now) = add_song_to_playlist_orm d p s now"
| "orm_step d (Orm_remove_song_from_playlist p s c) = remove_song_from_playlist_orm d p s c"
| "orm_step d (Orm_add_update_rating u s t) = add_update_rating_orm d u s t"
| "orm_step d (Orm_delete_rating u s c) = delete_rating_orm d u s c"

datatype op = Raw raw_op | Orm orm_op

fun step :: "db \<Rightarrow> op \<Rightarrow> outcome \<times> db" where
  "step d (Raw x) = raw_step d x"
| "step d (Orm x) = orm_step d x"

fun run :: "db \<Rightarrow> op list \<Rightarrow> db" where
  "run d [] = d"
| "run d (x # xs) = run (snd (step d x)) xs"


text \<open>The two properties of stored rows that the claims speak of.\<close>

definition ratings_in_range :: "db \<Rightarrow> bool" where
  "ratings_in_range d \<longleftrightarrow> (\<forall>r \<in> set (song_ratings d). 1 \<le> sr_rating r \<and> sr_rating r \<le> 5)"

definition clean :: "string \<Rightarrow> bool" where
  "clean s \<longleftrightarrow> (\<forall>p \<in> set forbidden. \<not> sublist p s)"

definition clean_db :: "db \<Rightarrow> bool" where
  "clean_db d \<longleftrightarrow>
     (\<forall>r \<in> set (users d). clean (u_username r) \<and> clean (u_email r) \<and> clean (u_password r))
     \<and> (\<forall>r \<in> set (artists d). clean (ar_name r) \<and> (\<forall>b. ar_bio r = Some b \<longrightarrow> clean b))
     \<and> (\<forall>r \<in> set (albums d). clean (al_title r))
     \<and> (\<forall>r \<in> set (songs d). clean (s_title r) \<and> clean (s_file_path r))
     \<and> (\<forall>r \<in> set (playlists d). clean (p_name r))"

section \<open>The menus\<close>


























section \<open>Deleting\<close>

text \<open>The sample catalogue is what ten operations of the raw-query program build.\<close>

lemma demo_db_reachable:
  "run empty_db
     [Raw (Add_user ''alice'' ''alice@example.org'' ''secret'' 10),
      Raw (Add_artist ''A'' []),
      Raw (Add_album 1 ''X'' None),
      Raw (Add_song 1 ''S1'' None ''s1.mp3''),
      Raw (Add_playlist 1 ''P''),
      Raw (Add_song_to_playlist 1 1 11),
      Raw (Add_update_rating 1 1 ''4''),
      Raw (Add_song_like 1 1 12),
      Raw (Add_artist_follow 1 1 13),
      Raw (Add_song_comment 1 1 ''nice'' 14)] = demo_db"
  by (simp add: empty_db_def demo_db_def add_user_def add_artist_def add_album_def add_song_def
      add_playlist_def add_song_to_playlist_def add_update_rating_def add_song_like_def
      add_artist_follow_def add_song_comment_def sbind_def varchar_def report_def
      report_added_def ask_default_def ask_value_def rating_choices_def
      nextval_users_def nextval_artists_def nextval_albums_def nextval_songs_def
      nextval_playlists_def nextval_song_comments_def insert_into_users_def
      insert_into_artists_def insert_into_albums_def insert_into_songs_def
      insert_into_playlists_def insert_into_song_comments_def
      insert_playlist_song_do_nothing_def insert_into_playlist_songs_def
      insert_song_like_do_nothing_def insert_artist_follow_do_nothing_def
      insert_song_rating_do_update_def insert_into_song_ratings_def
      user_exists_def artist_exists_def album_exists_def song_exists_def playlist_exists_def)

text \<open>
  C9. In the raw-query program, deleting an existing song that a like or a comment still
  references fails: the three cascade statements run, the final
  \<^verbatim>\<open>DELETE FROM songs\<close> raises the foreign-key error, and the rollback leaves the whole
  database as it was, the playlist entries, play history and ratings included.
\<close>

theorem delete_song_liked_or_commented_rolls_back:
  assumes "song_exists d song_id"
      and "(\<exists>r \<in> set (song_likes d). sl_song_id r = song_id) \<or>
           (\<exists>r \<in> set (song_comments d). sc_song_id r = song_id)"
  shows "delete_song d song_id True = (DbError ForeignKeyViolation, d)"
  using assms
  by (auto simp: delete_song_def report_delete_def sbind_def delete_from_playlist_songs_def
      delete_from_play_history_def delete_from_song_ratings_def delete_from_songs_def
      song_referenced_def song_exists_def)

theorem delete_song_liked_or_commented_rolls_back_witness:
  "song_exists demo_db 1
   \<and> (\<exists>r \<in> set (song_likes demo_db). sl_song_id r = 1)
   \<and> delete_song demo_db 1 True = (DbError ForeignKeyViolation, demo_db)"
proof -
  have h1: "song_exists demo_db 1"
    by (simp add: song_exists_def demo_db_def)
  have h2: "\<exists>r \<in> set (song_likes demo_db). sl_song_id r = 1"
    by (simp add: demo_db_def)
  from h2 have h3: "(\<exists>r \<in> set (song_likes demo_db). sl_song_id r = 1) \<or>
      (\<exists>r \<in> set (song_comments demo_db). sc_song_id r = 1)" ..
  show ?thesis
    using h1 h2 delete_song_liked_or_commented_rolls_back [OF h1 h3] by simp
qed

text \<open>
  C2. Deleting an artist is refused ("Cannot delete artist with existing albums!")
  exactly when some album carries the artist's id, deleting an album exactly when some
  song carries the album's id, and a refused deletion changes nothing. The
  object-relational program looks the row up first, so the same holds there for an
  artist or album that exists. (An artist without albums whom a user follows is not
  refused by this check; the \<^verbatim>\<open>DELETE\<close> then fails on the foreign key of
  \<^verbatim>\<open>artist_follows\<close>, a storage error that is rolled back.)
\<close>

theorem delete_artist_album_refused_iff_referenced:
  "(fst (delete_artist d a True) = CannotDelete \<longleftrightarrow> (\<exists>r \<in> set (albums d). al_artist_id r = a))
   \<and> (fst (delete_artist d a True) = CannotDelete \<longrightarrow> snd (delete_artist d a True) = d)
   \<and> (fst (delete_album d b True) = CannotDelete \<longleftrightarrow> (\<exists>r \<in> set (songs d). s_album_id r = b))
   \<and> (fst (delete_album d b True) = CannotDelete \<longrightarrow> snd (delete_album d b True) = d)
   \<and> (artist_exists d a \<longrightarrow>
        (fst (delete_artist_orm d a True) = CannotDelete
           \<longleftrightarrow> (\<exists>r \<in> set (albums d). al_artist_id r = a)))
   \<and> (fst (delete_artist_orm d a True) = CannotDelete \<longrightarrow> snd (delete_artist_orm d a True) = d)
   \<and> (album_exists d b \<longrightarrow>
        (fst (delete_album_orm d b True) = CannotDelete
           \<longleftrightarrow> (\<exists>r \<in> set (songs d). s_album_id r = b)))
   \<and> (fst (delete_album_orm d b True) = CannotDelete \<longrightarrow> snd (delete_album_orm d b True) = d)"
proof -
  have raw_artist: "fst (delete_artist d a True) = CannotDelete
      \<longleftrightarrow> (\<exists>r \<in> set (albums d). al_artist_id r = a)"
    by (auto simp: delete_artist_def report_delete_def delete_from_artists_def
        filter_empty_conv split: sum.splits if_splits)
  have raw_artist_same: "fst (delete_artist d a True) = CannotDelete
      \<longrightarrow> snd (delete_artist d a True) = d"
    by (auto simp: delete_artist_def report_delete_def delete_from_artists_def
        split: sum.splits if_splits)
  have raw_album: "fst (delete_album d b True) = CannotDelete
      \<longleftrightarrow> (\<exists>r \<in> set (songs d). s_album_id r = b)"
    by (auto simp: delete_album_def report_delete_def delete_from_albums_def
        filter_empty_conv split: sum.splits if_splits)
  have raw_album_same: "fst (delete_album d b True) = CannotDelete
      \<longrightarrow> snd (delete_album d b True) = d"
    by (auto simp: delete_album_def report_delete_def delete_from_albums_def
        split: sum.splits if_splits)
  have orm_artist: "artist_exists d a \<longrightarrow>
      (fst (delete_artist_orm d a True) = CannotDelete
         \<longleftrightarrow> (\<exists>r \<in> set (albums d). al_artist_id r = a))"
    by (auto simp: delete_artist_orm_def report_def delete_from_artists_def artist_exists_def
        filter_empty_conv find_None_iff dest!: find_Some_iff [THEN iffD1]
        split: sum.splits if_splits option.splits)
  have orm_artist_same: "fst (delete_artist_orm d a True) = CannotDelete
      \<longrightarrow> snd (delete_artist_orm d a True) = d"
    by (auto simp: delete_artist_orm_def report_def delete_from_artists_def
        split: sum.splits if_splits option.splits)
  have orm_album: "album_exists d b \<longrightarrow>
      (fst (delete_album_orm d b True) = CannotDelete
         \<longleftrightarrow> (\<exists>r \<in> set (songs d). s_album_id r = b))"
    by (auto simp: delete_album_orm_def report_def delete_from_albums_def album_exists_def
        filter_empty_conv find_None_iff dest!: find_Some_iff [THEN iffD1]
        split: sum.splits if_splits option.splits)
  have orm_album_same: "fst (delete_album_orm d b True) = CannotDelete
      \<longrightarrow> snd (delete_album_orm d b True) = d"
    by (auto simp: delete_album_orm_def report_def delete_from_albums_def
        split: sum.splits if_splits option.splits)
  show ?thesis
    using raw_artist raw_artist_same raw_album raw_album_same
      orm_artist orm_artist_same orm_album orm_album_same
    by blast
qed

theorem delete_artist_album_refused_iff_referenced_witness:
  "(\<exists>r \<in> set (albums demo_db). al_artist_id r = 1)
   \<and> delete_artist demo_db 1 True = (CannotDelete, demo_db)
   \<and> (\<exists>r \<in> set (songs demo_db). s_album_id r = 1)
   \<and> delete_album demo_db 1 True = (CannotDelete, demo_db)
   \<and> artist_exists demo_db 1
   \<and> delete_artist_orm demo_db 1 True = (CannotDelete, demo_db)
   \<and> album_exists demo_db 1
   \<and> delete_album_orm demo_db 1 True = (CannotDelete, demo_db)"
proof -
  have h1: "\<exists>r \<in> set (albums demo_db). al_artist_id r = 1"
    by (simp add: demo_db_def)
  have h2: "\<exists>r \<in> set (songs demo_db). s_album_id r = 1"
    by (simp add: demo_db_def)
  have h3: "artist_exists demo_db 1"
    by (simp add: artist_exists_def demo_db_def)
  have h4: "album_exists demo_db 1"
    by (simp add: album_exists_def demo_db_def)
  show ?thesis
    using h1 h2 h3 h4 delete_artist_album_refused_iff_referenced [of demo_db 1 1]
    by (simp add: prod_eq_iff)
qed

text \<open>
  C1 (the code departs from it). The cascade of \<^verbatim>\<open>delete_song\<close> and \<^verbatim>\<open>delete_user\<close>
  stops short of the tables \<^verbatim>\<open>song_likes\<close>, \<^verbatim>\<open>artist_follows\<close> and
  \<^verbatim>\<open>song_comments\<close>, and \<^verbatim>\<open>delete_user\<close> deletes the user's playlists without their
  entries. On the sample catalogue both deletions fail and nothing is removed: the
  song, the user and every dependent row are still there.
\<close>

theorem delete_song_and_user_leave_dependents:
  "delete_song demo_db 1 True = (DbError ForeignKeyViolation, demo_db)
   \<and> delete_user demo_db 1 True = (DbError ForeignKeyViolation, demo_db)
   \<and> delete_song_orm demo_db 1 True = (DbError ForeignKeyViolation, demo_db)
   \<and> delete_user_orm demo_db 1 True = (DbError ForeignKeyViolation, demo_db)
   \<and> song_exists demo_db 1 \<and> user_exists demo_db 1
   \<and> (\<exists>r \<in> set (song_likes demo_db). sl_song_id r = 1 \<and> sl_user_id r = 1)"
  by (simp add: delete_song_def delete_user_def delete_song_orm_def delete_user_orm_def
      report_delete_def report_def sbind_def delete_from_playlist_songs_def
      delete_from_play_history_def delete_from_song_ratings_def delete_from_songs_def
      delete_from_playlists_def delete_from_users_def playlist_referenced_def
      song_referenced_def user_referenced_def song_exists_def user_exists_def demo_db_def)

section \<open>Creating a link twice\<close>

lemma like_exists_no_op:
  "\<exists>r \<in> set (song_likes d). sl_user_id r = u \<and> sl_song_id r = s \<Longrightarrow>
   add_song_like d u s t = (AlreadyExists, d)"
  by (simp add: add_song_like_def report_added_def insert_song_like_do_nothing_def)

lemma like_done:
  assumes "fst (add_song_like d u s t) = Done"
  shows "snd (add_song_like d u s t) =
           d\<lparr>song_likes := song_likes d @
               [\<lparr>sl_user_id = u, sl_song_id = s, sl_liked_at = t\<rparr>]\<rparr>
         \<and> \<not> (\<exists>r \<in> set (song_likes d). sl_user_id r = u \<and> sl_song_id r = s)"
proof (cases "\<exists>r \<in> set (song_likes d). sl_user_id r = u \<and> sl_song_id r = s")
  case True
  then have "add_song_like d u s t = (AlreadyExists, d)" by (rule like_exists_no_op)
  with assms show ?thesis by simp
next
  case False
  show ?thesis
  proof (cases "\<not> user_exists d u \<or> \<not> song_exists d s")
    case True
    with False have "add_song_like d u s t = (DbError ForeignKeyViolation, d)"
      by (simp add: add_song_like_def report_added_def insert_song_like_do_nothing_def)
    with assms show ?thesis by simp
  next
    case ok: False
    with False show ?thesis
      by (simp add: add_song_like_def report_added_def insert_song_like_do_nothing_def)
  qed
qed

lemma like_twice:
  assumes "fst (add_song_like d u s t1) = Done"
  shows "length (filter (\<lambda>r. sl_user_id r = u \<and> sl_song_id r = s)
           (song_likes (snd (add_song_like d u s t1)))) = 1
         \<and> add_song_like (snd (add_song_like d u s t1)) u s t2
             = (AlreadyExists, snd (add_song_like d u s t1))"
proof -
  from like_done [OF assms] have
    eq: "snd (add_song_like d u s t1) =
           d\<lparr>song_likes := song_likes d @
               [\<lparr>sl_user_id = u, sl_song_id = s, sl_liked_at = t1\<rparr>]\<rparr>"
    and new: "\<not> (\<exists>r \<in> set (song_likes d). sl_user_id r = u \<and> sl_song_id r = s)"
    by simp_all
  from new have "filter (\<lambda>r. sl_user_id r = u \<and> sl_song_id r = s) (song_likes d) = []"
    by (simp add: filter_empty_conv)
  then have one: "length (filter (\<lambda>r. sl_user_id r = u \<and> sl_song_id r = s)
      (song_likes (snd (add_song_like d u s t1)))) = 1"
    by (simp add: eq)
  have "\<exists>r \<in> set (song_likes (snd (add_song_like d u s t1))).
      sl_user_id r = u \<and> sl_song_id r = s"
    by (simp add: eq)
  then have "add_song_like (snd (add_song_like d u s t1)) u s t2
      = (AlreadyExists, snd (add_song_like d u s t1))"
    by (rule like_exists_no_op)
  with one show ?thesis by simp
qed

lemma follow_exists_no_op:
  "\<exists>r \<in> set (artist_follows d). af_user_id r = u \<and> af_artist_id r = a \<Longrightarrow>
   add_artist_follow d u a t = (AlreadyExists, d)"
  by (simp add: add_artist_follow_def report_added_def insert_artist_follow_do_nothing_def)

lemma follow_done:
  assumes "fst (add_artist_follow d u a t) = Done"
  shows "snd (add_artist_follow d u a t) =
           d\<lparr>artist_follows := artist_follows d @
               [\<lparr>af_user_id = u, af_artist_id = a, af_followed_at = t\<rparr>]\<rparr>
         \<and> \<not> (\<exists>r \<in> set (artist_follows d). af_user_id r = u \<and> af_artist_id r = a)"
proof (cases "\<exists>r \<in> set (artist_follows d). af_user_id r = u \<and> af_artist_id r = a")
  case True
  then have "add_artist_follow d u a t = (AlreadyExists, d)" by (rule follow_exists_no_op)
  with assms show ?thesis by simp
next
  case False
  show ?thesis
  proof (cases "\<not> user_exists d u \<or> \<not> artist_exists d a")
    case True
    with False have "add_artist_follow d u a t = (DbError ForeignKeyViolation, d)"
      by (simp add: add_artist_follow_def report_added_def
          insert_artist_follow_do_nothing_def)
    with assms show ?thesis by simp
  next
    case ok: False
    with False show ?thesis
      by (simp add: add_artist_follow_def report_added_def
          insert_artist_follow_do_nothing_def)
  qed
qed

lemma follow_twice:
  assumes "fst (add_artist_follow d u a t1) = Done"
  shows "length (filter (\<lambda>r. af_user_id r = u \<and> af_artist_id r = a)
           (artist_follows (snd (add_artist_follow d u a t1)))) = 1
         \<and> add_artist_follow (snd (add_artist_follow d u a t1)) u a t2
             = (AlreadyExists, snd (add_artist_follow d u a t1))"
proof -
  from follow_done [OF assms] have
    eq: "snd (add_artist_follow d u a t1) =
           d\<lparr>artist_follows := artist_follows d @
               [\<lparr>af_user_id = u, af_artist_id = a, af_followed_at = t1\<rparr>]\<rparr>"
    and new: "\<not> (\<exists>r \<in> set (artist_follows d). af_user_id r = u \<and> af_artist_id r = a)"
    by simp_all
  from new have "filter (\<lambda>r. af_user_id r = u \<and> af_artist_id r = a) (artist_follows d) = []"
    by (simp add: filter_empty_conv)
  then have one: "length (filter (\<lambda>r. af_user_id r = u \<and> af_artist_id r = a)
      (artist_follows (snd (add_artist_follow d u a t1)))) = 1"
    by (simp add: eq)
  have "\<exists>r \<in> set (artist_follows (snd (add_artist_follow d u a t1))).
      af_user_id r = u \<and> af_artist_id r = a"
    by (simp add: eq)
  then have "add_artist_follow (snd (add_artist_follow d u a t1)) u a t2
      = (AlreadyExists, snd (add_artist_follow d u a t1))"
    by (rule follow_exists_no_op)
  with one show ?thesis by simp
qed

lemma entry_exists_no_op:
  "\<exists>r \<in> set (playlist_songs d). ps_playlist_id r = p \<and> ps_song_id r = s \<Longrightarrow>
   add_song_to_playlist d p s t = (AlreadyExists, d)"
  by (simp add: add_song_to_playlist_def report_added_def insert_playlist_song_do_nothing_def)

lemma entry_done:
  assumes "fst (add_song_to_playlist d p s t) = Done"
  shows "snd (add_song_to_playlist d p s t) =
           d\<lparr>playlist_songs := playlist_songs d @
               [\<lparr>ps_playlist_id = p, ps_song_id = s, ps_added_at = t\<rparr>]\<rparr>
         \<and> \<not> (\<exists>r \<in> set (playlist_songs d). ps_playlist_id r = p \<and> ps_song_id r = s)"
proof (cases "\<exists>r \<in> set (playlist_songs d). ps_playlist_id r = p \<and> ps_song_id r = s")
  case True
  then have "add_song_to_playlist d p s t = (AlreadyExists, d)" by (rule entry_exists_no_op)
  with assms show ?thesis by simp
next
  case False
  show ?thesis
  proof (cases "\<not> playlist_exists d p \<or> \<not> song_exists d s")
    case True
    with False have "add_song_to_playlist d p s t = (DbError ForeignKeyViolation, d)"
      by (simp add: add_song_to_playlist_def report_added_def
          insert_playlist_song_do_nothing_def insert_into_playlist_songs_def)
    with assms show ?thesis by simp
  next
    case ok: False
    with False show ?thesis
      by (simp add: add_song_to_playlist_def report_added_def
          insert_playlist_song_do_nothing_def insert_into_playlist_songs_def)
  qed
qed

lemma entry_twice:
  assumes "fst (add_song_to_playlist d p s t1) = Done"
  shows "length (filter (\<lambda>r. ps_playlist_id r = p \<and> ps_song_id r = s)
           (playlist_songs (snd (add_song_to_playlist d p s t1)))) = 1
         \<and> add_song_to_playlist (snd (add_song_to_playlist d p s t1)) p s t2
             = (AlreadyExists, snd (add_song_to_playlist d p s t1))"
proof -
  from entry_done [OF assms] have
    eq: "snd (add_song_to_playlist d p s t1) =
           d\<lparr>playlist_songs := playlist_songs d @
               [\<lparr>ps_playlist_id = p, ps_song_id = s, ps_added_at = t1\<rparr>]\<rparr>"
    and new: "\<not> (\<exists>r \<in> set (playlist_songs d). ps_playlist_id r = p \<and> ps_song_id r = s)"
    by simp_all
  from new have "filter (\<lambda>r. ps_playlist_id r = p \<and> ps_song_id r = s) (playlist_songs d) = []"
    by (simp add: filter_empty_conv)
  then have one: "length (filter (\<lambda>r. ps_playlist_id r = p \<and> ps_song_id r = s)
      (playlist_songs (snd (add_song_to_playlist d p s t1)))) = 1"
    by (simp add: eq)
  have "\<exists>r \<in> set (playlist_songs (snd (add_song_to_playlist d p s t1))).
      ps_playlist_id r = p \<and> ps_song_id r = s"
    by (simp add: eq)
  then have "add_song_to_playlist (snd (add_song_to_playlist d p s t1)) p s t2
      = (AlreadyExists, snd (add_song_to_playlist d p s t1))"
    by (rule entry_exists_no_op)
  with one show ?thesis by simp
qed

lemma entry_orm_done:
  assumes "fst (add_song_to_playlist_orm d p s t) = Done"
  shows "snd (add_song_to_playlist_orm d p s t) =
           d\<lparr>playlist_songs := playlist_songs d @
               [\<lparr>ps_playlist_id = p, ps_song_id = s, ps_added_at = t\<rparr>]\<rparr>
         \<and> \<not> (\<exists>r \<in> set (playlist_songs d). ps_playlist_id r = p \<and> ps_song_id r = s)
         \<and> playlist_exists d p \<and> song_exists d s"
proof (cases "playlist_exists d p \<and> song_exists d s")
  case False
  then have "fst (add_song_to_playlist_orm d p s t) = NotFound"
    by (auto simp: add_song_to_playlist_orm_def)
  with assms show ?thesis by simp
next
  case ok: True
  show ?thesis
  proof (cases "\<exists>r \<in> set (playlist_songs d). ps_playlist_id r = p \<and> ps_song_id r = s")
    case True
    with ok have "add_song_to_playlist_orm d p s t = (AlreadyExists, d)"
      by (simp add: add_song_to_playlist_orm_def)
    with assms show ?thesis by simp
  next
    case False
    with ok show ?thesis
      by (simp add: add_song_to_playlist_orm_def report_def insert_into_playlist_songs_def)
  qed
qed

lemma entry_orm_twice:
  assumes "fst (add_song_to_playlist_orm d p s t1) = Done"
  shows "length (filter (\<lambda>r. ps_playlist_id r = p \<and> ps_song_id r = s)
           (playlist_songs (snd (add_song_to_playlist_orm d p s t1)))) = 1
         \<and> add_song_to_playlist_orm (snd (add_song_to_playlist_orm d p s t1)) p s t2
             = (AlreadyExists, snd (add_song_to_playlist_orm d p s t1))"
proof -
  from entry_orm_done [OF assms] have
    eq: "snd (add_song_to_playlist_orm d p s t1) =
           d\<lparr>playlist_songs := playlist_songs d @
               [\<lparr>ps_playlist_id = p, ps_song_id = s, ps_added_at = t1\<rparr>]\<rparr>"
    and new: "\<not> (\<exists>r \<in> set (playlist_songs d). ps_playlist_id r = p \<and> ps_song_id r = s)"
    and ex: "playlist_exists d p" "song_exists d s"
    by simp_all
  from new have "filter (\<lambda>r. ps_playlist_id r = p \<and> ps_song_id r = s) (playlist_songs d) = []"
    by (simp add: filter_empty_conv)
  then have one: "length (filter (\<lambda>r. ps_playlist_id r = p \<and> ps_song_id r = s)
      (playlist_songs (snd (add_song_to_playlist_orm d p s t1)))) = 1"
    by (simp add: eq)
  have "add_song_to_playlist_orm (snd (add_song_to_playlist_orm d p s t1)) p s t2
      = (AlreadyExists, snd (add_song_to_playlist_orm d p s t1))"
    using ex unfolding eq
    by (simp add: add_song_to_playlist_orm_def playlist_exists_def song_exists_def)
  with one show ?thesis by simp
qed

text \<open>
  C4. A playlist entry, a like or a follow created a second time for the same pair
  changes nothing: after a first create that succeeded the table holds exactly one row
  for the pair, and the second create reports "already exists" (yellow), neither the
  success message nor an error, and leaves the database as it is. The same holds for
  the playlist entries of the object-relational program, which has no likes or follows.
\<close>

theorem second_create_already_exists:
  "(fst (add_song_to_playlist d p s t1) = Done \<longrightarrow>
      length (filter (\<lambda>r. ps_playlist_id r = p \<and> ps_song_id r = s)
        (playlist_songs (snd (add_song_to_playlist d p s t1)))) = 1
      \<and> add_song_to_playlist (snd (add_song_to_playlist d p s t1)) p s t2
          = (AlreadyExists, snd (add_song_to_playlist d p s t1)))
   \<and> (fst (add_song_like d u s t1) = Done \<longrightarrow>
      length (filter (\<lambda>r. sl_user_id r = u \<and> sl_song_id r = s)
        (song_likes (snd (add_song_like d u s t1)))) = 1
      \<and> add_song_like (snd (add_song_like d u s t1)) u s t2
          = (AlreadyExists, snd (add_song_like d u s t1)))
   \<and> (fst (add_artist_follow d u a t1) = Done \<longrightarrow>
      length (filter (\<lambda>r. af_user_id r = u \<and> af_artist_id r = a)
        (artist_follows (snd (add_artist_follow d u a t1)))) = 1
      \<and> add_artist_follow (snd (add_artist_follow d u a t1)) u a t2
          = (AlreadyExists, snd (add_artist_follow d u a t1)))
   \<and> (fst (add_song_to_playlist_orm d p s t1) = Done \<longrightarrow>
      length (filter (\<lambda>r. ps_playlist_id r = p \<and> ps_song_id r = s)
        (playlist_songs (snd (add_song_to_playlist_orm d p s t1)))) = 1
      \<and> add_song_to_playlist_orm (snd (add_song_to_playlist_orm d p s t1)) p s t2
          = (AlreadyExists, snd (add_song_to_playlist_orm d p s t1)))"
  using entry_twice [of d p s t1 t2] like_twice [of d u s t1 t2]
    follow_twice [of d u a t1 t2] entry_orm_twice [of d p s t1 t2]
  by blast

theorem second_create_already_exists_witness:
  "fst (add_song_to_playlist bare_db 1 1 20) = Done
   \<and> add_song_to_playlist (snd (add_song_to_playlist bare_db 1 1 20)) 1 1 21
       = (AlreadyExists, snd (add_song_to_playlist bare_db 1 1 20))
   \<and> fst (add_song_like bare_db 1 1 20) = Done
   \<and> add_song_like (snd (add_song_like bare_db 1 1 20)) 1 1 21
       = (AlreadyExists, snd (add_song_like bare_db 1 1 20))
   \<and> fst (add_artist_follow bare_db 1 1 20) = Done
   \<and> add_artist_follow (snd (add_artist_follow bare_db 1 1 20)) 1 1 21
       = (AlreadyExists, snd (add_artist_follow bare_db 1 1 20))
   \<and> fst (add_song_to_playlist_orm bare_db 1 1 20) = Done
   \<and> add_song_to_playlist_orm (snd (add_song_to_playlist_orm bare_db 1 1 20)) 1 1 21
       = (AlreadyExists, snd (add_song_to_playlist_orm bare_db 1 1 20))"
proof -
  have h1: "fst (add_song_to_playlist bare_db 1 1 20) = Done"
    by (simp add: add_song_to_playlist_def report_added_def
        insert_playlist_song_do_nothing_def insert_into_playlist_songs_def
        playlist_exists_def song_exists_def bare_db_def demo_db_def)
  have h2: "fst (add_song_like bare_db 1 1 20) = Done"
    by (simp add: add_song_like_def report_added_def insert_song_like_do_nothing_def
        user_exists_def song_exists_def bare_db_def demo_db_def)
  have h3: "fst (add_artist_follow bare_db 1 1 20) = Done"
    by (simp add: add_artist_follow_def report_added_def insert_artist_follow_do_nothing_def
        user_exists_def artist_exists_def bare_db_def demo_db_def)
  have h4: "fst (add_song_to_playlist_orm bare_db 1 1 20) = Done"
    by (simp add: add_song_to_playlist_orm_def report_def insert_into_playlist_songs_def
        playlist_exists_def song_exists_def bare_db_def demo_db_def)
  show ?thesis
    using h1 h2 h3 h4 second_create_already_exists [of bare_db 1 1 20 21 1 1]
    by simp
qed

section \<open>Rating twice\<close>

lemma filter_key_single:
  "distinct (map k xs) \<Longrightarrow> x \<in> set xs \<Longrightarrow> filter (\<lambda>r. k r = k x) xs = [x]"
proof (induction xs)
  case Nil
  then show ?case by simp
next
  case (Cons y ys)
  show ?case
  proof (cases "x = y")
    case True
    from Cons.prems have "k y \<notin> k ` set ys" by simp
    then have "\<forall>r \<in> set ys. k r \<noteq> k y" by (metis imageI)
    then have "filter (\<lambda>r. k r = k y) ys = []"
      by (simp add: filter_empty_conv)
    with True show ?thesis by simp
  next
    case False
    with Cons.prems have "x \<in> set ys" by simp
    moreover from Cons.prems have "distinct (map k ys)" by simp
    ultimately have "filter (\<lambda>r. k r = k x) ys = [x]" by (rule Cons.IH [rotated])
    moreover from Cons.prems \<open>x \<in> set ys\<close> have "k y \<noteq> k x" by auto
    ultimately show ?thesis by simp
  qed
qed

lemma rating_choices_range: "map_of rating_choices t = Some v \<Longrightarrow> 1 \<le> v \<and> v \<le> 5"
  by (auto simp: rating_choices_def split: if_splits)

lemma rating_rows_after_update:
  assumes dist: "distinct (map (\<lambda>r. (sr_user_id r, sr_song_id r)) rs)"
      and ex: "\<exists>r \<in> set rs. sr_user_id r = u \<and> sr_song_id r = s"
  shows "filter (\<lambda>r. sr_user_id r = u \<and> sr_song_id r = s)
           (map (\<lambda>r. if sr_user_id r = u \<and> sr_song_id r = s then r\<lparr>sr_rating := v\<rparr> else r) rs)
         = [\<lparr>sr_user_id = u, sr_song_id = s, sr_rating = v\<rparr>]"
    and "map (\<lambda>r. (sr_user_id r, sr_song_id r))
           (map (\<lambda>r. if sr_user_id r = u \<and> sr_song_id r = s then r\<lparr>sr_rating := v\<rparr> else r) rs)
         = map (\<lambda>r. (sr_user_id r, sr_song_id r)) rs"
proof -
  from ex obtain x where x: "x \<in> set rs" "sr_user_id x = u" "sr_song_id x = s" by auto
  have "filter (\<lambda>r. (sr_user_id r, sr_song_id r) = (sr_user_id x, sr_song_id x)) rs = [x]"
    using dist x(1) by (rule filter_key_single)
  with x have one: "filter (\<lambda>r. sr_user_id r = u \<and> sr_song_id r = s) rs = [x]" by simp
  have "filter (\<lambda>r. sr_user_id r = u \<and> sr_song_id r = s)
           (map (\<lambda>r. if sr_user_id r = u \<and> sr_song_id r = s then r\<lparr>sr_rating := v\<rparr> else r) rs)
        = map (\<lambda>r. r\<lparr>sr_rating := v\<rparr>) (filter (\<lambda>r. sr_user_id r = u \<and> sr_song_id r = s) rs)"
    by (induction rs) simp_all
  also have "\<dots> = [x\<lparr>sr_rating := v\<rparr>]" by (simp add: one)
  also have "x\<lparr>sr_rating := v\<rparr> = \<lparr>sr_user_id = u, sr_song_id = s, sr_rating = v\<rparr>"
    using x(2,3) by simp
  finally show "filter (\<lambda>r. sr_user_id r = u \<and> sr_song_id r = s)
           (map (\<lambda>r. if sr_user_id r = u \<and> sr_song_id r = s then r\<lparr>sr_rating := v\<rparr> else r) rs)
         = [\<lparr>sr_user_id = u, sr_song_id = s, sr_rating = v\<rparr>]" .
  show "map (\<lambda>r. (sr_user_id r, sr_song_id r))
           (map (\<lambda>r. if sr_user_id r = u \<and> sr_song_id r = s then r\<lparr>sr_rating := v\<rparr> else r) rs)
         = map (\<lambda>r. (sr_user_id r, sr_song_id r)) rs"
    by (induction rs) simp_all
qed

lemma upsert_rated:
  assumes v: "1 \<le> v" "v \<le> 5"
      and ex: "user_exists d u" "song_exists d s"
      and dist: "distinct (map (\<lambda>r. (sr_user_id r, sr_song_id r)) (song_ratings d))"
  shows "\<exists>n d'. insert_song_rating_do_update u s v d = Inr (n, d') \<and> rated d u s v d'"
    and "\<exists>n d'. (if \<exists>r \<in> set (song_ratings d). sr_user_id r = u \<and> sr_song_id r = s
                 then update_song_ratings (\<lambda>r. sr_user_id r = u \<and> sr_song_id r = s) v d
                 else insert_into_song_ratings u s v d) = Inr (n, d') \<and> rated d u s v d'"
proof -
  have both: "insert_song_rating_do_update u s v d =
      (if \<exists>r \<in> set (song_ratings d). sr_user_id r = u \<and> sr_song_id r = s
       then update_song_ratings (\<lambda>r. sr_user_id r = u \<and> sr_song_id r = s) v d
       else insert_into_song_ratings u s v d)"
    using v by (simp add: insert_song_rating_do_update_def)
  show "\<exists>n d'. (if \<exists>r \<in> set (song_ratings d). sr_user_id r = u \<and> sr_song_id r = s
                 then update_song_ratings (\<lambda>r. sr_user_id r = u \<and> sr_song_id r = s) v d
                 else insert_into_song_ratings u s v d) = Inr (n, d') \<and> rated d u s v d'"
  proof (cases "\<exists>r \<in> set (song_ratings d). sr_user_id r = u \<and> sr_song_id r = s")
    case True
    let ?new = "map (\<lambda>r. if sr_user_id r = u \<and> sr_song_id r = s then r\<lparr>sr_rating := v\<rparr> else r)
                  (song_ratings d)"
    from rating_rows_after_update [OF dist True, of v] have
      row: "filter (\<lambda>r. sr_user_id r = u \<and> sr_song_id r = s) ?new
              = [\<lparr>sr_user_id = u, sr_song_id = s, sr_rating = v\<rparr>]"
      and keys: "map (\<lambda>r. (sr_user_id r, sr_song_id r)) ?new
              = map (\<lambda>r. (sr_user_id r, sr_song_id r)) (song_ratings d)"
      by simp_all
    from keys dist have dist': "distinct (map (\<lambda>r. (sr_user_id r, sr_song_id r)) ?new)"
      by (simp only:)
    have "rated d u s v (d\<lparr>song_ratings := ?new\<rparr>)"
      unfolding rated_def using row dist' ex
      by (simp add: user_exists_def song_exists_def)
    moreover have "update_song_ratings (\<lambda>r. sr_user_id r = u \<and> sr_song_id r = s) v d
        = Inr (length (filter (\<lambda>r. sr_user_id r = u \<and> sr_song_id r = s) (song_ratings d)),
               d\<lparr>song_ratings := ?new\<rparr>)"
      using v by (simp add: update_song_ratings_def)
    ultimately show ?thesis
      unfolding if_P [OF True] by blast
  next
    case False
    then have none: "filter (\<lambda>r. sr_user_id r = u \<and> sr_song_id r = s) (song_ratings d) = []"
      by (simp add: filter_empty_conv)
    from False have fresh: "(u, s) \<notin> (\<lambda>r. (sr_user_id r, sr_song_id r)) ` set (song_ratings d)"
      by auto
    let ?new = "song_ratings d @ [\<lparr>sr_user_id = u, sr_song_id = s, sr_rating = v\<rparr>]"
    have ins: "insert_into_song_ratings u s v d = Inr (1, d\<lparr>song_ratings := ?new\<rparr>)"
      using False v ex by (simp add: insert_into_song_ratings_def)
    have "rated d u s v (d\<lparr>song_ratings := ?new\<rparr>)"
      unfolding rated_def using none fresh dist ex
      by (simp add: user_exists_def song_exists_def)
    with ins show ?thesis
      unfolding if_not_P [OF False] by blast
  qed
  then show "\<exists>n d'. insert_song_rating_do_update u s v d = Inr (n, d') \<and> rated d u s v d'"
    by (simp only: both)
qed

lemma add_update_rating_rated:
  assumes "map_of rating_choices t = Some v"
      and "user_exists d u" "song_exists d s"
      and "distinct (map (\<lambda>r. (sr_user_id r, sr_song_id r)) (song_ratings d))"
  shows "fst (add_update_rating d u s t) = Done \<and> rated d u s v (snd (add_update_rating d u s t))"
proof -
  from rating_choices_range [OF assms(1)] have v: "1 \<le> v" "v \<le> 5" by simp_all
  from upsert_rated(1) [OF v assms(2-4)] obtain n d' where
    "insert_song_rating_do_update u s v d = Inr (n, d')" "rated d u s v d'" by blast
  with assms(1) show ?thesis
    by (simp add: add_update_rating_def report_def)
qed

lemma rating_choice_valid:
  assumes "map_of rating_choices t = Some v"
  shows "t \<in> set (map fst rating_choices)" and "validate_input t 1 False = Inr t"
proof -
  from assms have t: "t = ''1'' \<or> t = ''2'' \<or> t = ''3'' \<or> t = ''4'' \<or> t = ''5''"
    by (auto simp: rating_choices_def split: if_splits)
  then show "t \<in> set (map fst rating_choices)"
    by (auto simp: rating_choices_def)
  from t show "validate_input t 1 False = Inr t"
    by (auto simp: validate_input_def strip_def is_space_def forbidden_def)
qed

lemma add_update_rating_orm_rated:
  assumes "map_of rating_choices t = Some v"
      and "user_exists d u" "song_exists d s"
      and "distinct (map (\<lambda>r. (sr_user_id r, sr_song_id r)) (song_ratings d))"
  shows "fst (add_update_rating_orm d u s t) = Done
         \<and> rated d u s v (snd (add_update_rating_orm d u s t))"
proof -
  from rating_choices_range [OF assms(1)] have v: "1 \<le> v" "v \<le> 5" by simp_all
  from upsert_rated(2) [OF v assms(2-4)] obtain n d' where
    "(if \<exists>r \<in> set (song_ratings d). sr_user_id r = u \<and> sr_song_id r = s
      then update_song_ratings (\<lambda>r. sr_user_id r = u \<and> sr_song_id r = s) v d
      else insert_into_song_ratings u s v d) = Inr (n, d')" "rated d u s v d'" by blast
  with assms(1-3) rating_choice_valid [OF assms(1)] show ?thesis
    by (simp add: add_update_rating_orm_def report_orm_def report_def sbind_def)
qed

text \<open>
  C3. For an existing user and song, in a table that respects its primary key
  \<^verbatim>\<open>(user_id, song_id)\<close>, rating twice, with the choices \<open>t1\<close> then \<open>t2\<close>, succeeds
  both times and leaves exactly one row for the pair, holding the second value. This
  holds in both programs and whether or not the two values differ.
\<close>

theorem rating_twice_keeps_second:
  assumes "user_exists d u" and "song_exists d s"
      and "distinct (map (\<lambda>r. (sr_user_id r, sr_song_id r)) (song_ratings d))"
      and "map_of rating_choices t1 = Some v1" and "map_of rating_choices t2 = Some v2"
  shows "fst (add_update_rating d u s t1) = Done
         \<and> fst (add_update_rating (snd (add_update_rating d u s t1)) u s t2) = Done
         \<and> filter (\<lambda>r. sr_user_id r = u \<and> sr_song_id r = s)
             (song_ratings (snd (add_update_rating (snd (add_update_rating d u s t1)) u s t2)))
             = [\<lparr>sr_user_id = u, sr_song_id = s, sr_rating = v2\<rparr>]
         \<and> fst (add_update_rating_orm d u s t1) = Done
         \<and> fst (add_update_rating_orm (snd (add_update_rating_orm d u s t1)) u s t2) = Done
         \<and> filter (\<lambda>r. sr_user_id r = u \<and> sr_song_id r = s)
             (song_ratings
               (snd (add_update_rating_orm (snd (add_update_rating_orm d u s t1)) u s t2)))
             = [\<lparr>sr_user_id = u, sr_song_id = s, sr_rating = v2\<rparr>]"
proof -
  from add_update_rating_rated [OF assms(4) assms(1-3)] have
    first: "fst (add_update_rating d u s t1) = Done"
    and r1: "rated d u s v1 (snd (add_update_rating d u s t1))" by simp_all
  from r1 have
    "user_exists (snd (add_update_rating d u s t1)) u"
    "song_exists (snd (add_update_rating d u s t1)) s"
    "distinct (map (\<lambda>r. (sr_user_id r, sr_song_id r))
       (song_ratings (snd (add_update_rating d u s t1))))"
    by (simp_all add: rated_def)
  from add_update_rating_rated [OF assms(5) this] have
    second: "fst (add_update_rating (snd (add_update_rating d u s t1)) u s t2) = Done"
    and rows: "filter (\<lambda>r. sr_user_id r = u \<and> sr_song_id r = s)
       (song_ratings (snd (add_update_rating (snd (add_update_rating d u s t1)) u s t2)))
       = [\<lparr>sr_user_id = u, sr_song_id = s, sr_rating = v2\<rparr>]"
    by (simp_all add: rated_def)
  from add_update_rating_orm_rated [OF assms(4) assms(1-3)] have
    first_orm: "fst (add_update_rating_orm d u s t1) = Done"
    and o1: "rated d u s v1 (snd (add_update_rating_orm d u s t1))" by simp_all
  from o1 have
    "user_exists (snd (add_update_rating_orm d u s t1)) u"
    "song_exists (snd (add_update_rating_orm d u s t1)) s"
    "distinct (map (\<lambda>r. (sr_user_id r, sr_song_id r))
       (song_ratings (snd (add_update_rating_orm d u s t1))))"
    by (simp_all add: rated_def)
  from add_update_rating_orm_rated [OF assms(5) this] have
    second_orm: "fst (add_update_rating_orm (snd (add_update_rating_orm d u s t1)) u s t2) = Done"
    and rows_orm: "filter (\<lambda>r. sr_user_id r = u \<and> sr_song_id r = s)
       (song_ratings
         (snd (add_update_rating_orm (snd (add_update_rating_orm d u s t1)) u s t2)))
       = [\<lparr>sr_user_id = u, sr_song_id = s, sr_rating = v2\<rparr>]"
    by (simp_all add: rated_def)
  from first second rows first_orm second_orm rows_orm show ?thesis by simp
qed

theorem rating_twice_keeps_second_witness:
  "user_exists demo_db 1 \<and> song_exists demo_db 1
   \<and> distinct (map (\<lambda>r. (sr_user_id r, sr_song_id r)) (song_ratings demo_db))
   \<and> map_of rating_choices ''2'' = Some 2 \<and> map_of rating_choices ''5'' = Some 5
   \<and> filter (\<lambda>r. sr_user_id r = 1 \<and> sr_song_id r = 1)
       (song_ratings (snd (add_update_rating (snd (add_update_rating demo_db 1 1 ''2'')) 1 1 ''5'')))
       = [\<lparr>sr_user_id = 1, sr_song_id = 1, sr_rating = 5\<rparr>]
   \<and> filter (\<lambda>r. sr_user_id r = 1 \<and> sr_song_id r = 1)
       (song_ratings
         (snd (add_update_rating_orm (snd (add_update_rating_orm demo_db 1 1 ''2'')) 1 1 ''5'')))
       = [\<lparr>sr_user_id = 1, sr_song_id = 1, sr_rating = 5\<rparr>]"
proof -
  have h1: "user_exists demo_db 1" by (simp add: user_exists_def demo_db_def)
  have h2: "song_exists demo_db 1" by (simp add: song_exists_def demo_db_def)
  have h3: "distinct (map (\<lambda>r. (sr_user_id r, sr_song_id r)) (song_ratings demo_db))"
    by (simp add: demo_db_def)
  have h4: "map_of rating_choices ''2'' = Some 2" by (simp add: rating_choices_def)
  have h5: "map_of rating_choices ''5'' = Some 5" by (simp add: rating_choices_def)
  show ?thesis
    using h1 h2 h3 h4 h5 rating_twice_keeps_second [OF h1 h2 h3 h4 h5] by simp
qed

section \<open>Creating a user twice\<close>

lemma report_Done:
  "fst (report d0 r) = Done \<Longrightarrow> \<exists>n d'. r = Inr (n, d') \<and> snd (report d0 r) = d'"
  by (cases r) (auto simp: report_def)

lemma report_not_Done:
  "fst (report d0 r) \<noteq> Done \<Longrightarrow> snd (report d0 r) = d0"
  by (cases r) (auto simp: report_def)

lemma varchar_fits: "length s \<le> n \<Longrightarrow> varchar n s = Inr s"
  by (simp add: varchar_def)

lemma add_user_duplicate:
  assumes dup: "\<exists>r \<in> set (users d). u_username r = username \<or> u_email r = email"
      and fits: "length username \<le> 50" "length email \<le> 100"
  shows "add_user d username email password now
           = (DbError UniqueViolation, d\<lparr>users_id_seq := users_id_seq d + 1\<rparr>)"
proof -
  from dup have "\<exists>r \<in> set (users d).
      u_id r = users_id_seq d + 1 \<or> u_username r = username \<or> u_email r = email"
    by blast
  then show ?thesis
    by (simp add: add_user_def sbind_def varchar_fits [OF fits(1)] varchar_fits [OF fits(2)]
        nextval_users_def report_def insert_into_users_def)
qed

lemma add_user_failed_keeps_rows:
  "fst (add_user d username email password now) \<noteq> Done \<Longrightarrow>
   users (snd (add_user d username email password now)) = users d"
proof -
  assume nd: "fst (add_user d username email password now) \<noteq> Done"
  show ?thesis
  proof (cases "sbind (varchar 50 username) (\<lambda>u. sbind (varchar 100 email) (\<lambda>e. Inr (u, e)))")
    case (Inl e)
    then show ?thesis by (simp add: add_user_def)
  next
    case (Inr ue)
    obtain u e where ue: "ue = (u, e)" by (cases ue)
    let ?d1 = "d\<lparr>users_id_seq := users_id_seq d + 1\<rparr>"
    let ?r = "insert_into_users (users_id_seq d + 1) u e password now ?d1"
    have eq: "add_user d username email password now = report ?d1 ?r"
      using Inr ue by (simp add: add_user_def nextval_users_def)
    from nd have "snd (report ?d1 ?r) = ?d1"
      unfolding eq by (rule report_not_Done)
    then show ?thesis unfolding eq by simp
  qed
qed

lemma add_user_orm_duplicate:
  assumes "validate_input username_in 100 False = Inr username"
      and "validate_input email_in 100 False = Inr email"
      and "validate_input password_in 100 False = Inr password"
      and "\<exists>r \<in> set (users d). u_username r = username \<or> u_email r = email"
  shows "add_user_orm d username_in email_in password_in now = (UsernameOrEmailExists, d)"
  using assms by (simp add: add_user_orm_def report_orm_def sbind_def)

lemma add_user_orm_failed_keeps_rows:
  "fst (add_user_orm d username_in email_in password_in now) \<noteq> Done \<Longrightarrow>
   users (snd (add_user_orm d username_in email_in password_in now)) = users d"
proof -
  assume nd: "fst (add_user_orm d username_in email_in password_in now) \<noteq> Done"
  show ?thesis
  proof (cases "validate_input username_in 100 False")
    case (Inl e) then show ?thesis by (simp add: add_user_orm_def report_orm_def sbind_def)
  next
    case un: (Inr username)
    show ?thesis
    proof (cases "validate_input email_in 100 False")
      case (Inl e) with un show ?thesis by (simp add: add_user_orm_def report_orm_def sbind_def)
    next
      case em: (Inr email)
      show ?thesis
      proof (cases "validate_input password_in 100 False")
        case (Inl e) with un em show ?thesis
          by (simp add: add_user_orm_def report_orm_def sbind_def)
      next
        case pw: (Inr password)
        show ?thesis
        proof (cases "\<exists>r \<in> set (users d). u_username r = username \<or> u_email r = email")
          case True
          from add_user_orm_duplicate [OF un em pw True] show ?thesis by simp
        next
          case False
          have eq: "add_user_orm d username_in email_in password_in now
              = add_user d username email password now"
            using un em pw False
            by (simp add: add_user_orm_def add_user_def report_orm_def sbind_def)
          from nd show ?thesis unfolding eq by (rule add_user_failed_keeps_rows)
        qed
      qed
    qed
  qed
qed

text \<open>
  C5. Creating a user whose username or email an existing user holds fails and inserts
  no row. In the raw-query program the \<^verbatim>\<open>UNIQUE\<close> index raises the unique-violation
  error (for values within the column widths; the rollback leaves only the id sequence
  advanced). In the object-relational program, for inputs that pass
  \<^verbatim>\<open>validate_input\<close>, the lookup reports "Username or email already exists!" and
  nothing is changed. In both programs a create that does not report success leaves the
  rows of \<^verbatim>\<open>users\<close> as they were.
\<close>

theorem duplicate_user_rejected:
  "((\<exists>r \<in> set (users d). u_username r = username \<or> u_email r = email)
      \<and> length username \<le> 50 \<and> length email \<le> 100 \<longrightarrow>
      add_user d username email password now
        = (DbError UniqueViolation, d\<lparr>users_id_seq := users_id_seq d + 1\<rparr>))
   \<and> (validate_input username_in 100 False = Inr username
      \<and> validate_input email_in 100 False = Inr email
      \<and> validate_input password_in 100 False = Inr password
      \<and> (\<exists>r \<in> set (users d). u_username r = username \<or> u_email r = email) \<longrightarrow>
      add_user_orm d username_in email_in password_in now = (UsernameOrEmailExists, d))
   \<and> (fst (add_user d username email password now) \<noteq> Done \<longrightarrow>
      users (snd (add_user d username email password now)) = users d)
   \<and> (fst (add_user_orm d username_in email_in password_in now) \<noteq> Done \<longrightarrow>
      users (snd (add_user_orm d username_in email_in password_in now)) = users d)"
  using add_user_duplicate [of d username email password now]
    add_user_orm_duplicate [of username_in username email_in email password_in password d now]
    add_user_failed_keeps_rows [of d username email password now]
    add_user_orm_failed_keeps_rows [of d username_in email_in password_in now]
  by blast

theorem duplicate_user_rejected_witness:
  "(\<exists>r \<in> set (users demo_db). u_username r = ''alice'' \<or> u_email r = ''al@example.org'')
   \<and> add_user demo_db ''alice'' ''al@example.org'' ''pw'' 30
       = (DbError UniqueViolation, demo_db\<lparr>users_id_seq := 2\<rparr>)
   \<and> validate_input '' alice'' 100 False = Inr ''alice''
   \<and> add_user_orm demo_db '' alice'' ''al@example.org'' ''pw'' 30
       = (UsernameOrEmailExists, demo_db)
   \<and> users (snd (add_user demo_db ''alice'' ''al@example.org'' ''pw'' 30)) = users demo_db"
proof -
  have h1: "\<exists>r \<in> set (users demo_db). u_username r = ''alice'' \<or> u_email r = ''al@example.org''"
    by (simp add: demo_db_def)
  have h2: "length ''alice'' \<le> 50" "length ''al@example.org'' \<le> 100" by simp_all
  have h3: "validate_input '' alice'' 100 False = Inr ''alice''"
    by (simp add: validate_input_def strip_def is_space_def forbidden_def)
  have h4: "validate_input ''al@example.org'' 100 False = Inr ''al@example.org''"
    by (simp add: validate_input_def strip_def is_space_def forbidden_def)
  have h5: "validate_input ''pw'' 100 False = Inr ''pw''"
    by (simp add: validate_input_def strip_def is_space_def forbidden_def)
  have h6: "users_id_seq demo_db + 1 = 2" by (simp add: demo_db_def)
  show ?thesis
    using h1 h2 h3 h4 h5 h6
      duplicate_user_rejected [of demo_db "''alice''" "''al@example.org''" "''pw''" 30
            "'' alice''" "''al@example.org''" "''pw''"]
    by simp
qed

section \<open>Optional fields\<close>

lemma insert_into_albums_row:
  "insert_into_albums i t a rd d = Inr (n, d') \<Longrightarrow>
   albums d' = albums d @
     [\<lparr>al_id = i, al_title = t, al_artist_id = a, al_release_date = rd\<rparr>]"
  by (auto simp: insert_into_albums_def split: if_splits)

lemma insert_into_songs_row:
  "insert_into_songs i t a du fp d = Inr (n, d') \<Longrightarrow>
   songs d' = songs d @
     [\<lparr>s_id = i, s_title = t, s_album_id = a, s_duration = du, s_file_path = fp\<rparr>]"
  by (auto simp: insert_into_songs_def split: if_splits)

lemma insert_into_artists_row:
  "insert_into_artists i n bio d = Inr (k, d') \<Longrightarrow>
   artists d' = artists d @ [\<lparr>ar_id = i, ar_name = n, ar_bio = bio\<rparr>]"
  by (auto simp: insert_into_artists_def split: if_splits)

lemma add_album_blank:
  assumes "fst (add_album d a title None) = Done"
  shows "\<exists>row. albums (snd (add_album d a title None)) = albums d @ [row]
               \<and> al_release_date row = None"
proof (cases "varchar 100 title")
  case (Inl e)
  with assms show ?thesis by (simp add: add_album_def)
next
  case (Inr t)
  let ?d1 = "d\<lparr>albums_id_seq := albums_id_seq d + 1\<rparr>"
  let ?r = "insert_into_albums (albums_id_seq d + 1) t a None ?d1"
  have eq: "add_album d a title None = report ?d1 ?r"
    using Inr by (simp add: add_album_def nextval_albums_def)
  from assms obtain n d' where r: "?r = Inr (n, d')" and d': "snd (report ?d1 ?r) = d'"
    unfolding eq by (blast dest: report_Done)
  from insert_into_albums_row [OF r] d' show ?thesis
    unfolding eq by simp
qed

lemma add_album_orm_blank:
  assumes "fst (add_album_orm d a title_in None) = Done"
  shows "\<exists>row. albums (snd (add_album_orm d a title_in None)) = albums d @ [row]
               \<and> al_release_date row = None"
proof (cases "validate_input title_in 100 False")
  case (Inl e)
  with assms show ?thesis by (simp add: add_album_orm_def report_orm_def sbind_def)
next
  case v: (Inr title)
  show ?thesis
  proof (cases "artist_exists d a")
    case False
    with v assms show ?thesis by (simp add: add_album_orm_def report_orm_def sbind_def)
  next
    case True
    with v have eq: "add_album_orm d a title_in None = add_album d a title None"
      by (simp add: add_album_orm_def add_album_def report_orm_def sbind_def
          split: sum.splits prod.splits)
    from assms show ?thesis unfolding eq by (rule add_album_blank)
  qed
qed

lemma add_song_blank:
  assumes "fst (add_song d a title None fp) = Done"
  shows "\<exists>row. songs (snd (add_song d a title None fp)) = songs d @ [row]
               \<and> s_duration row = Some 0"
proof (cases "varchar 100 title")
  case (Inl e)
  with assms show ?thesis by (simp add: add_song_def)
next
  case (Inr t)
  let ?d1 = "d\<lparr>songs_id_seq := songs_id_seq d + 1\<rparr>"
  let ?r = "insert_into_songs (songs_id_seq d + 1) t a (Some 0) fp ?d1"
  have eq: "add_song d a title None fp = report ?d1 ?r"
    using Inr by (simp add: add_song_def nextval_songs_def ask_value_def)
  from assms obtain n d' where r: "?r = Inr (n, d')" and d': "snd (report ?d1 ?r) = d'"
    unfolding eq by (blast dest: report_Done)
  from insert_into_songs_row [OF r] d' show ?thesis
    unfolding eq by simp
qed

lemma add_song_orm_blank:
  assumes "fst (add_song_orm d a title_in None fp_in) = Done"
  shows "\<exists>row. songs (snd (add_song_orm d a title_in None fp_in)) = songs d @ [row]
               \<and> s_duration row = Some 0"
proof (cases "validate_input title_in 100 False")
  case (Inl e)
  with assms show ?thesis by (simp add: add_song_orm_def report_orm_def sbind_def)
next
  case v: (Inr title)
  show ?thesis
  proof (cases "validate_input fp_in 100 False")
    case (Inl e)
    with v assms show ?thesis by (simp add: add_song_orm_def report_orm_def sbind_def)
  next
    case w: (Inr fp)
    show ?thesis
    proof (cases "album_exists d a")
      case False
      with v w assms show ?thesis by (simp add: add_song_orm_def report_orm_def sbind_def)
    next
      case True
      with v w have eq: "add_song_orm d a title_in None fp_in = add_song d a title None fp"
        by (simp add: add_song_orm_def add_song_def report_orm_def sbind_def)
      from assms show ?thesis unfolding eq by (rule add_song_blank)
    qed
  qed
qed

lemma add_artist_orm_blank:
  assumes "fst (add_artist_orm d name_in []) = Done"
  shows "\<exists>row. artists (snd (add_artist_orm d name_in [])) = artists d @ [row]
               \<and> ar_bio row = None"
proof -
  have blank: "validate_input (ask_default [] []) 100 True = Inr []"
    by (simp add: validate_input_def ask_default_def strip_def forbidden_def)
  show ?thesis
  proof (cases "validate_input name_in 100 False")
    case (Inl e)
    with assms show ?thesis by (simp add: add_artist_orm_def report_orm_def sbind_def)
  next
    case v: (Inr name)
    show ?thesis
    proof (cases "varchar 100 name")
      case (Inl e)
      with v blank assms show ?thesis
        by (simp add: add_artist_orm_def report_orm_def sbind_def)
    next
      case (Inr n)
      let ?d1 = "d\<lparr>artists_id_seq := artists_id_seq d + 1\<rparr>"
      let ?r = "insert_into_artists (artists_id_seq d + 1) n None ?d1"
      have eq: "add_artist_orm d name_in [] = report ?d1 ?r"
        using v blank Inr
        by (simp add: add_artist_orm_def report_orm_def sbind_def nextval_artists_def)
      from assms obtain k d' where r: "?r = Inr (k, d')" and d': "snd (report ?d1 ?r) = d'"
        unfolding eq by (blast dest: report_Done)
      from insert_into_artists_row [OF r] d' show ?thesis
        unfolding eq by simp
    qed
  qed
qed

text \<open>
  C7 as stated fails: a song created without a duration stores the number 0, the
  prompt's default, in both programs, not NULL; and the raw-query program stores the
  empty text for an artist created without a bio.
\<close>

theorem blank_duration_stored_as_zero:
  "songs (snd (add_song demo_db 1 ''S2'' None ''s2.mp3''))
     = songs demo_db @ [\<lparr>s_id = 2, s_title = ''S2'', s_album_id = 1, s_duration = Some 0,
                         s_file_path = ''s2.mp3''\<rparr>]
   \<and> songs (snd (add_song_orm demo_db 1 ''S2'' None ''s2.mp3''))
     = songs demo_db @ [\<lparr>s_id = 2, s_title = ''S2'', s_album_id = 1, s_duration = Some 0,
                         s_file_path = ''s2.mp3''\<rparr>]
   \<and> artists (snd (add_artist demo_db ''B'' []))
     = artists demo_db @ [\<lparr>ar_id = 2, ar_name = ''B'', ar_bio = Some []\<rparr>]"
  by (simp add: add_song_def add_song_orm_def add_artist_def report_orm_def report_def
      sbind_def validate_input_def strip_def is_space_def forbidden_def varchar_def
      ask_value_def ask_default_def nextval_songs_def nextval_artists_def
      insert_into_songs_def insert_into_artists_def album_exists_def demo_db_def)

text \<open>
  C7, amended. An album created without a release date stores NULL in both programs,
  and so does an artist created without a bio in the object-relational program; a song
  created without a duration stores 0 in both programs.
\<close>

theorem blank_optional_fields:
  "(fst (add_album d a title None) = Done \<longrightarrow>
      (\<exists>row. albums (snd (add_album d a title None)) = albums d @ [row]
             \<and> al_release_date row = None))
   \<and> (fst (add_album_orm d a title None) = Done \<longrightarrow>
      (\<exists>row. albums (snd (add_album_orm d a title None)) = albums d @ [row]
             \<and> al_release_date row = None))
   \<and> (fst (add_artist_orm d name []) = Done \<longrightarrow>
      (\<exists>row. artists (snd (add_artist_orm d name [])) = artists d @ [row]
             \<and> ar_bio row = None))
   \<and> (fst (add_song d b title None path) = Done \<longrightarrow>
      (\<exists>row. songs (snd (add_song d b title None path)) = songs d @ [row]
             \<and> s_duration row = Some 0))
   \<and> (fst (add_song_orm d b title None path) = Done \<longrightarrow>
      (\<exists>row. songs (snd (add_song_orm d b title None path)) = songs d @ [row]
             \<and> s_duration row = Some 0))"
  using add_album_blank [of d a title] add_album_orm_blank [of d a title]
    add_artist_orm_blank [of d name] add_song_blank [of d b title path]
    add_song_orm_blank [of d b title path]
  by blast

theorem blank_optional_fields_witness:
  "fst (add_album demo_db 1 ''Y'' None) = Done
   \<and> fst (add_album_orm demo_db 1 ''Y'' None) = Done
   \<and> fst (add_artist_orm demo_db ''B'' []) = Done
   \<and> fst (add_song demo_db 1 ''Y'' None ''y.mp3'') = Done
   \<and> fst (add_song_orm demo_db 1 ''Y'' None ''y.mp3'') = Done
   \<and> (\<exists>row. albums (snd (add_album demo_db 1 ''Y'' None)) = albums demo_db @ [row]
          \<and> al_release_date row = None)
   \<and> (\<exists>row. artists (snd (add_artist_orm demo_db ''B'' [])) = artists demo_db @ [row]
          \<and> ar_bio row = None)
   \<and> (\<exists>row. songs (snd (add_song_orm demo_db 1 ''Y'' None ''y.mp3'')) = songs demo_db @ [row]
          \<and> s_duration row = Some 0)"
proof -
  have h1: "fst (add_album demo_db 1 ''Y'' None) = Done"
    by (simp add: add_album_def report_def varchar_def nextval_albums_def
        insert_into_albums_def artist_exists_def demo_db_def)
  have h2: "fst (add_album_orm demo_db 1 ''Y'' None) = Done"
    by (simp add: add_album_orm_def report_orm_def report_def sbind_def validate_input_def
        strip_def is_space_def forbidden_def varchar_def nextval_albums_def
        insert_into_albums_def artist_exists_def demo_db_def)
  have h3: "fst (add_artist_orm demo_db ''B'' []) = Done"
    by (simp add: add_artist_orm_def report_orm_def report_def sbind_def validate_input_def
        strip_def is_space_def forbidden_def varchar_def ask_default_def nextval_artists_def
        insert_into_artists_def demo_db_def)
  have h4: "fst (add_song demo_db 1 ''Y'' None ''y.mp3'') = Done"
    by (simp add: add_song_def report_def varchar_def ask_value_def nextval_songs_def
        insert_into_songs_def album_exists_def demo_db_def)
  have h5: "fst (add_song_orm demo_db 1 ''Y'' None ''y.mp3'') = Done"
    by (simp add: add_song_orm_def report_orm_def report_def sbind_def validate_input_def
        strip_def is_space_def forbidden_def varchar_def ask_value_def nextval_songs_def
        insert_into_songs_def album_exists_def demo_db_def)
  show ?thesis
    using h1 h2 h3 h4 h5 blank_optional_fields [of demo_db 1 "''Y''" "''B''" 1 "''y.mp3''"]
    by simp
qed

section \<open>Ratings stay in range\<close>

lemma sbind_Inr: "sbind m f = Inr y \<Longrightarrow> \<exists>x. m = Inr x \<and> f x = Inr y"
  by (cases m) (simp_all add: sbind_def)

lemma report_keeps:
  "P d0 \<Longrightarrow> (\<And>n d'. r = Inr (n, d') \<Longrightarrow> P d') \<Longrightarrow> P (snd (report d0 r))"
  by (cases r) (auto simp: report_def)

lemma report_delete_keeps:
  "P d0 \<Longrightarrow> (\<And>n d'. r = Inr (n, d') \<Longrightarrow> P d') \<Longrightarrow> P (snd (report_delete d0 r))"
  by (cases r) (auto simp: report_delete_def)

lemma report_added_keeps:
  "P d0 \<Longrightarrow> (\<And>n d'. r = Inr (n, d') \<Longrightarrow> P d') \<Longrightarrow> P (snd (report_added d0 r))"
  by (cases r) (auto simp: report_added_def)

lemma report_orm_Inr: "report_orm d0 (Inr y) = y"
  by (simp add: report_orm_def)

lemma report_orm_sbind_keeps:
  "P d0 \<Longrightarrow> (\<And>x. v = Inr x \<Longrightarrow> P (snd (report_orm d0 (f x)))) \<Longrightarrow>
   P (snd (report_orm d0 (sbind v f)))"
  by (cases v) (auto simp: report_orm_def sbind_def)

lemmas rr_report = report_keeps [where P = ratings_in_range]
  and rr_report_delete = report_delete_keeps [where P = ratings_in_range]
  and rr_report_added = report_added_keeps [where P = ratings_in_range]
  and rr_report_orm = report_orm_sbind_keeps [where P = ratings_in_range]

lemma rr_seq [simp]:
  "ratings_in_range (d\<lparr>users_id_seq := x\<rparr>) = ratings_in_range d"
  "ratings_in_range (d\<lparr>artists_id_seq := x\<rparr>) = ratings_in_range d"
  "ratings_in_range (d\<lparr>albums_id_seq := x\<rparr>) = ratings_in_range d"
  "ratings_in_range (d\<lparr>songs_id_seq := x\<rparr>) = ratings_in_range d"
  "ratings_in_range (d\<lparr>playlists_id_seq := x\<rparr>) = ratings_in_range d"
  "ratings_in_range (d\<lparr>song_comments_id_seq := x\<rparr>) = ratings_in_range d"
  by (simp_all add: ratings_in_range_def)

lemma rr_delete_from_users:
  "delete_from_users w d = Inr (n, d') \<Longrightarrow> ratings_in_range d \<Longrightarrow> ratings_in_range d'"
  by (auto simp: delete_from_users_def insert_into_playlist_songs_def insert_into_song_ratings_def
        update_song_ratings_def ratings_in_range_def Let_def filter_empty_conv split: if_splits)

lemma rr_delete_from_artists:
  "delete_from_artists w d = Inr (n, d') \<Longrightarrow> ratings_in_range d \<Longrightarrow> ratings_in_range d'"
  by (auto simp: delete_from_artists_def insert_into_playlist_songs_def insert_into_song_ratings_def
        update_song_ratings_def ratings_in_range_def Let_def filter_empty_conv split: if_splits)

lemma rr_delete_from_albums:
  "delete_from_albums w d = Inr (n, d') \<Longrightarrow> ratings_in_range d \<Longrightarrow> ratings_in_range d'"
  by (auto simp: delete_from_albums_def insert_into_playlist_songs_def insert_into_song_ratings_def
        update_song_ratings_def ratings_in_range_def Let_def filter_empty_conv split: if_splits)

lemma rr_delete_from_songs:
  "delete_from_songs w d = Inr (n, d') \<Longrightarrow> ratings_in_range d \<Longrightarrow> ratings_in_range d'"
  by (auto simp: delete_from_songs_def insert_into_playlist_songs_def insert_into_song_ratings_def
        update_song_ratings_def ratings_in_range_def Let_def filter_empty_conv split: if_splits)

lemma rr_delete_from_playlists:
  "delete_from_playlists w d = Inr (n, d') \<Longrightarrow> ratings_in_range d \<Longrightarrow> ratings_in_range d'"
  by (auto simp: delete_from_playlists_def insert_into_playlist_songs_def insert_into_song_ratings_def
        update_song_ratings_def ratings_in_range_def Let_def filter_empty_conv split: if_splits)

lemma rr_delete_from_playlist_songs:
  "delete_from_playlist_songs w d = Inr (n, d') \<Longrightarrow> ratings_in_range d \<Longrightarrow> ratings_in_range d'"
  by (auto simp: delete_from_playlist_songs_def insert_into_playlist_songs_def insert_into_song_ratings_def
        update_song_ratings_def ratings_in_range_def Let_def filter_empty_conv split: if_splits)

lemma rr_delete_from_play_history:
  "delete_from_play_history w d = Inr (n, d') \<Longrightarrow> ratings_in_range d \<Longrightarrow> ratings_in_range d'"
  by (auto simp: delete_from_play_history_def insert_into_playlist_songs_def insert_into_song_ratings_def
        update_song_ratings_def ratings_in_range_def Let_def filter_empty_conv split: if_splits)

lemma rr_delete_from_song_ratings:
  "delete_from_song_ratings w d = Inr (n, d') \<Longrightarrow> ratings_in_range d \<Longrightarrow> ratings_in_range d'"
  by (auto simp: delete_from_song_ratings_def insert_into_playlist_songs_def insert_into_song_ratings_def
        update_song_ratings_def ratings_in_range_def Let_def filter_empty_conv split: if_splits)

lemma rr_delete_from_song_likes:
  "delete_from_song_likes w d = Inr (n, d') \<Longrightarrow> ratings_in_range d \<Longrightarrow> ratings_in_range d'"
  by (auto simp: delete_from_song_likes_def insert_into_playlist_songs_def insert_into_song_ratings_def
        update_song_ratings_def ratings_in_range_def Let_def filter_empty_conv split: if_splits)

lemma rr_delete_from_artist_follows:
  "delete_from_artist_follows w d = Inr (n, d') \<Longrightarrow> ratings_in_range d \<Longrightarrow> ratings_in_range d'"
  by (auto simp: delete_from_artist_follows_def insert_into_playlist_songs_def insert_into_song_ratings_def
        update_song_ratings_def ratings_in_range_def Let_def filter_empty_conv split: if_splits)

lemma rr_delete_from_song_comments:
  "delete_from_song_comments w d = Inr (n, d') \<Longrightarrow> ratings_in_range d \<Longrightarrow> ratings_in_range d'"
  by (auto simp: delete_from_song_comments_def insert_into_playlist_songs_def insert_into_song_ratings_def
        update_song_ratings_def ratings_in_range_def Let_def filter_empty_conv split: if_splits)

lemma rr_insert_into_users:
  "insert_into_users i u e p now d = Inr (n, d') \<Longrightarrow> ratings_in_range d \<Longrightarrow> ratings_in_range d'"
  by (auto simp: insert_into_users_def insert_into_playlist_songs_def insert_into_song_ratings_def
        update_song_ratings_def ratings_in_range_def Let_def filter_empty_conv split: if_splits)

lemma rr_insert_into_artists:
  "insert_into_artists i name bio d = Inr (n, d') \<Longrightarrow> ratings_in_range d \<Longrightarrow> ratings_in_range d'"
  by (auto simp: insert_into_artists_def insert_into_playlist_songs_def insert_into_song_ratings_def
        update_song_ratings_def ratings_in_range_def Let_def filter_empty_conv split: if_splits)

lemma rr_insert_into_albums:
  "insert_into_albums i t a day d = Inr (n, d') \<Longrightarrow> ratings_in_range d \<Longrightarrow> ratings_in_range d'"
  by (auto simp: insert_into_albums_def insert_into_playlist_songs_def insert_into_song_ratings_def
        update_song_ratings_def ratings_in_range_def Let_def filter_empty_conv split: if_splits)

lemma rr_insert_into_songs:
  "insert_into_songs i t a du fp d = Inr (n, d') \<Longrightarrow> ratings_in_range d \<Longrightarrow> ratings_in_range d'"
  by (auto simp: insert_into_songs_def insert_into_playlist_songs_def insert_into_song_ratings_def
        update_song_ratings_def ratings_in_range_def Let_def filter_empty_conv split: if_splits)

lemma rr_insert_into_playlists:
  "insert_into_playlists i name u d = Inr (n, d') \<Longrightarrow> ratings_in_range d \<Longrightarrow> ratings_in_range d'"
  by (auto simp: insert_into_playlists_def insert_into_playlist_songs_def insert_into_song_ratings_def
        update_song_ratings_def ratings_in_range_def Let_def filter_empty_conv split: if_splits)

lemma rr_insert_into_song_comments:
  "insert_into_song_comments i u s c now d = Inr (n, d') \<Longrightarrow> ratings_in_range d \<Longrightarrow> ratings_in_range d'"
  by (auto simp: insert_into_song_comments_def insert_into_playlist_songs_def insert_into_song_ratings_def
        update_song_ratings_def ratings_in_range_def Let_def filter_empty_conv split: if_splits)

lemma rr_insert_into_playlist_songs:
  "insert_into_playlist_songs p s now d = Inr (n, d') \<Longrightarrow> ratings_in_range d \<Longrightarrow> ratings_in_range d'"
  by (auto simp: insert_into_playlist_songs_def insert_into_playlist_songs_def insert_into_song_ratings_def
        update_song_ratings_def ratings_in_range_def Let_def filter_empty_conv split: if_splits)

lemma rr_insert_playlist_song_do_nothing:
  "insert_playlist_song_do_nothing p s now d = Inr (n, d') \<Longrightarrow> ratings_in_range d \<Longrightarrow> ratings_in_range d'"
  by (auto simp: insert_playlist_song_do_nothing_def insert_into_playlist_songs_def insert_into_song_ratings_def
        update_song_ratings_def ratings_in_range_def Let_def filter_empty_conv split: if_splits)

lemma rr_insert_song_like_do_nothing:
  "insert_song_like_do_nothing u s now d = Inr (n, d') \<Longrightarrow> ratings_in_range d \<Longrightarrow> ratings_in_range d'"
  by (auto simp: insert_song_like_do_nothing_def insert_into_playlist_songs_def insert_into_song_ratings_def
        update_song_ratings_def ratings_in_range_def Let_def filter_empty_conv split: if_splits)

lemma rr_insert_artist_follow_do_nothing:
  "insert_artist_follow_do_nothing u a now d = Inr (n, d') \<Longrightarrow> ratings_in_range d \<Longrightarrow> ratings_in_range d'"
  by (auto simp: insert_artist_follow_do_nothing_def insert_into_playlist_songs_def insert_into_song_ratings_def
        update_song_ratings_def ratings_in_range_def Let_def filter_empty_conv split: if_splits)

lemma rr_insert_into_song_ratings:
  "insert_into_song_ratings u s v d = Inr (n, d') \<Longrightarrow> ratings_in_range d \<Longrightarrow> ratings_in_range d'"
  by (auto simp: insert_into_song_ratings_def insert_into_playlist_songs_def insert_into_song_ratings_def
        update_song_ratings_def ratings_in_range_def Let_def filter_empty_conv split: if_splits)

lemma rr_update_song_ratings:
  "update_song_ratings w v d = Inr (n, d') \<Longrightarrow> ratings_in_range d \<Longrightarrow> ratings_in_range d'"
  by (auto simp: update_song_ratings_def insert_into_playlist_songs_def insert_into_song_ratings_def
        update_song_ratings_def ratings_in_range_def Let_def filter_empty_conv split: if_splits)

lemma rr_insert_song_rating_do_update:
  "insert_song_rating_do_update u s v d = Inr (n, d') \<Longrightarrow> ratings_in_range d \<Longrightarrow> ratings_in_range d'"
  by (auto simp: insert_song_rating_do_update_def insert_into_playlist_songs_def insert_into_song_ratings_def
        update_song_ratings_def ratings_in_range_def Let_def filter_empty_conv split: if_splits)

lemma rr_update_users:
  "update_users w f d = Inr (n, d') \<Longrightarrow> ratings_in_range d \<Longrightarrow> ratings_in_range d'"
  by (auto simp: update_users_def insert_into_playlist_songs_def insert_into_song_ratings_def
        update_song_ratings_def ratings_in_range_def Let_def filter_empty_conv split: if_splits)

lemma rr_update_artists:
  "update_artists w f d = Inr (n, d') \<Longrightarrow> ratings_in_range d \<Longrightarrow> ratings_in_range d'"
  by (auto simp: update_artists_def insert_into_playlist_songs_def insert_into_song_ratings_def
        update_song_ratings_def ratings_in_range_def Let_def filter_empty_conv split: if_splits)

lemma rr_update_albums:
  "update_albums w f d = Inr (n, d') \<Longrightarrow> ratings_in_range d \<Longrightarrow> ratings_in_range d'"
  by (auto simp: update_albums_def insert_into_playlist_songs_def insert_into_song_ratings_def
        update_song_ratings_def ratings_in_range_def Let_def filter_empty_conv split: if_splits)

lemma rr_update_songs:
  "update_songs w f d = Inr (n, d') \<Longrightarrow> ratings_in_range d \<Longrightarrow> ratings_in_range d'"
  by (auto simp: update_songs_def insert_into_playlist_songs_def insert_into_song_ratings_def
        update_song_ratings_def ratings_in_range_def Let_def filter_empty_conv split: if_splits)

lemma rr_update_playlists:
  "update_playlists w f d = Inr (n, d') \<Longrightarrow> ratings_in_range d \<Longrightarrow> ratings_in_range d'"
  by (auto simp: update_playlists_def insert_into_playlist_songs_def insert_into_song_ratings_def
        update_song_ratings_def ratings_in_range_def Let_def filter_empty_conv split: if_splits)

lemmas rr_statements =
  rr_delete_from_users
  rr_delete_from_artists
  rr_delete_from_albums
  rr_delete_from_songs
  rr_delete_from_playlists
  rr_delete_from_playlist_songs
  rr_delete_from_play_history
  rr_delete_from_song_ratings
  rr_delete_from_song_likes
  rr_delete_from_artist_follows
  rr_delete_from_song_comments
  rr_insert_into_users
  rr_insert_into_artists
  rr_insert_into_albums
  rr_insert_into_songs
  rr_insert_into_playlists
  rr_insert_into_song_comments
  rr_insert_into_playlist_songs
  rr_insert_playlist_song_do_nothing
  rr_insert_song_like_do_nothing
  rr_insert_artist_follow_do_nothing
  rr_insert_into_song_ratings
  rr_update_song_ratings
  rr_insert_song_rating_do_update
  rr_update_users
  rr_update_artists
  rr_update_albums
  rr_update_songs
  rr_update_playlists

lemma rr_add_user:
  "ratings_in_range d \<Longrightarrow> ratings_in_range (snd (add_user d username email password now))"
  unfolding add_user_def
  by (auto simp: nextval_users_def nextval_artists_def nextval_albums_def nextval_songs_def
        nextval_playlists_def nextval_song_comments_def Let_def report_orm_Inr
      intro!: rr_report rr_report_delete rr_report_added rr_report_orm
      dest!: sbind_Inr dest: rr_statements
      split: sum.splits option.splits if_splits)
    ((auto dest: rr_statements)?)

lemma rr_update_user:
  "ratings_in_range d \<Longrightarrow> ratings_in_range (snd (update_user d i username email password))"
  unfolding update_user_def
  by (auto simp: nextval_users_def nextval_artists_def nextval_albums_def nextval_songs_def
        nextval_playlists_def nextval_song_comments_def Let_def report_orm_Inr
      intro!: rr_report rr_report_delete rr_report_added rr_report_orm
      dest!: sbind_Inr dest: rr_statements
      split: sum.splits option.splits if_splits)
    ((auto dest: rr_statements)?)

lemma rr_delete_user:
  "ratings_in_range d \<Longrightarrow> ratings_in_range (snd (delete_user d i c))"
  unfolding delete_user_def
  by (auto simp: nextval_users_def nextval_artists_def nextval_albums_def nextval_songs_def
        nextval_playlists_def nextval_song_comments_def Let_def report_orm_Inr
      intro!: rr_report rr_report_delete rr_report_added rr_report_orm
      dest!: sbind_Inr dest: rr_statements
      split: sum.splits option.splits if_splits)
    ((auto dest: rr_statements)?)

lemma rr_add_artist:
  "ratings_in_range d \<Longrightarrow> ratings_in_range (snd (add_artist d name bio))"
  unfolding add_artist_def
  by (auto simp: nextval_users_def nextval_artists_def nextval_albums_def nextval_songs_def
        nextval_playlists_def nextval_song_comments_def Let_def report_orm_Inr
      intro!: rr_report rr_report_delete rr_report_added rr_report_orm
      dest!: sbind_Inr dest: rr_statements
      split: sum.splits option.splits if_splits)
    ((auto dest: rr_statements)?)

lemma rr_update_artist:
  "ratings_in_range d \<Longrightarrow> ratings_in_range (snd (update_artist d i name bio))"
  unfolding update_artist_def
  by (auto simp: nextval_users_def nextval_artists_def nextval_albums_def nextval_songs_def
        nextval_playlists_def nextval_song_comments_def Let_def report_orm_Inr
      intro!: rr_report rr_report_delete rr_report_added rr_report_orm
      dest!: sbind_Inr dest: rr_statements
      split: sum.splits option.splits if_splits)
    ((auto dest: rr_statements)?)

lemma rr_delete_artist:
  "ratings_in_range d \<Longrightarrow> ratings_in_range (snd (delete_artist d i c))"
  unfolding delete_artist_def
  by (auto simp: nextval_users_def nextval_artists_def nextval_albums_def nextval_songs_def
        nextval_playlists_def nextval_song_comments_def Let_def report_orm_Inr
      intro!: rr_report rr_report_delete rr_report_added rr_report_orm
      dest!: sbind_Inr dest: rr_statements
      split: sum.splits option.splits if_splits)
    ((auto dest: rr_statements)?)

lemma rr_add_album:
  "ratings_in_range d \<Longrightarrow> ratings_in_range (snd (add_album d a title day))"
  unfolding add_album_def
  by (auto simp: nextval_users_def nextval_artists_def nextval_albums_def nextval_songs_def
        nextval_playlists_def nextval_song_comments_def Let_def report_orm_Inr
      intro!: rr_report rr_report_delete rr_report_added rr_report_orm
      dest!: sbind_Inr dest: rr_statements
      split: sum.splits option.splits if_splits)
    ((auto dest: rr_statements)?)

lemma rr_update_album:
  "ratings_in_range d \<Longrightarrow> ratings_in_range (snd (update_album d i title a day))"
  unfolding update_album_def
  by (auto simp: nextval_users_def nextval_artists_def nextval_albums_def nextval_songs_def
        nextval_playlists_def nextval_song_comments_def Let_def report_orm_Inr
      intro!: rr_report rr_report_delete rr_report_added rr_report_orm
      dest!: sbind_Inr dest: rr_statements
      split: sum.splits option.splits if_splits)
    ((auto dest: rr_statements)?)

lemma rr_delete_album:
  "ratings_in_range d \<Longrightarrow> ratings_in_range (snd (delete_album d i c))"
  unfolding delete_album_def
  by (auto simp: nextval_users_def nextval_artists_def nextval_albums_def nextval_songs_def
        nextval_playlists_def nextval_song_comments_def Let_def report_orm_Inr
      intro!: rr_report rr_report_delete rr_report_added rr_report_orm
      dest!: sbind_Inr dest: rr_statements
      split: sum.splits option.splits if_splits)
    ((auto dest: rr_statements)?)

lemma rr_add_song:
  "ratings_in_range d \<Longrightarrow> ratings_in_range (snd (add_song d a title duration path))"
  unfolding add_song_def
  by (auto simp: nextval_users_def nextval_artists_def nextval_albums_def nextval_songs_def
        nextval_playlists_def nextval_song_comments_def Let_def report_orm_Inr
      intro!: rr_report rr_report_delete rr_report_added rr_report_orm
      dest!: sbind_Inr dest: rr_statements
      split: sum.splits option.splits if_splits)
    ((auto dest: rr_statements)?)

lemma rr_update_song:
  "ratings_in_range d \<Longrightarrow> ratings_in_range (snd (update_song d i title a duration path))"
  unfolding update_song_def
  by (auto simp: nextval_users_def nextval_artists_def nextval_albums_def nextval_songs_def
        nextval_playlists_def nextval_song_comments_def Let_def report_orm_Inr
      intro!: rr_report rr_report_delete rr_report_added rr_report_orm
      dest!: sbind_Inr dest: rr_statements
      split: sum.splits option.splits if_splits)
    ((auto dest: rr_statements)?)

lemma rr_delete_song:
  "ratings_in_range d \<Longrightarrow> ratings_in_range (snd (delete_song d i c))"
  unfolding delete_song_def
  by (auto simp: nextval_users_def nextval_artists_def nextval_albums_def nextval_songs_def
        nextval_playlists_def nextval_song_comments_def Let_def report_orm_Inr
      intro!: rr_report rr_report_delete rr_report_added rr_report_orm
      dest!: sbind_Inr dest: rr_statements
      split: sum.splits option.splits if_splits)
    ((auto dest: rr_statements)?)

lemma rr_add_playlist:
  "ratings_in_range d \<Longrightarrow> ratings_in_range (snd (add_playlist d u name))"
  unfolding add_playlist_def
  by (auto simp: nextval_users_def nextval_artists_def nextval_albums_def nextval_songs_def
        nextval_playlists_def nextval_song_comments_def Let_def report_orm_Inr
      intro!: rr_report rr_report_delete rr_report_added rr_report_orm
      dest!: sbind_Inr dest: rr_statements
      split: sum.splits option.splits if_splits)
    ((auto dest: rr_statements)?)

lemma rr_update_playlist:
  "ratings_in_range d \<Longrightarrow> ratings_in_range (snd (update_playlist d i name u))"
  unfolding update_playlist_def
  by (auto simp: nextval_users_def nextval_artists_def nextval_albums_def nextval_songs_def
        nextval_playlists_def nextval_song_comments_def Let_def report_orm_Inr
      intro!: rr_report rr_report_delete rr_report_added rr_report_orm
      dest!: sbind_Inr dest: rr_statements
      split: sum.splits option.splits if_splits)
    ((auto dest: rr_statements)?)

lemma rr_delete_playlist:
  "ratings_in_range d \<Longrightarrow> ratings_in_range (snd (delete_playlist d i c))"
  unfolding delete_playlist_def
  by (auto simp: nextval_users_def nextval_artists_def nextval_albums_def nextval_songs_def
        nextval_playlists_def nextval_song_comments_def Let_def report_orm_Inr
      intro!: rr_report rr_report_delete rr_report_added rr_report_orm
      dest!: sbind_Inr dest: rr_statements
      split: sum.splits option.splits if_splits)
    ((auto dest: rr_statements)?)

lemma rr_add_song_to_playlist:
  "ratings_in_range d \<Longrightarrow> ratings_in_range (snd (add_song_to_playlist d p s now))"
  unfolding add_song_to_playlist_def
  by (auto simp: nextval_users_def nextval_artists_def nextval_albums_def nextval_songs_def
        nextval_playlists_def nextval_song_comments_def Let_def report_orm_Inr
      intro!: rr_report rr_report_delete rr_report_added rr_report_orm
      dest!: sbind_Inr dest: rr_statements
      split: sum.splits option.splits if_splits)
    ((auto dest: rr_statements)?)

lemma rr_remove_song_from_playlist:
  "ratings_in_range d \<Longrightarrow> ratings_in_range (snd (remove_song_from_playlist d p s c))"
  unfolding remove_song_from_playlist_def
  by (auto simp: nextval_users_def nextval_artists_def nextval_albums_def nextval_songs_def
        nextval_playlists_def nextval_song_comments_def Let_def report_orm_Inr
      intro!: rr_report rr_report_delete rr_report_added rr_report_orm
      dest!: sbind_Inr dest: rr_statements
      split: sum.splits option.splits if_splits)
    ((auto dest: rr_statements)?)

lemma rr_add_update_rating:
  "ratings_in_range d \<Longrightarrow> ratings_in_range (snd (add_update_rating d u s t))"
  unfolding add_update_rating_def
  by (auto simp: nextval_users_def nextval_artists_def nextval_albums_def nextval_songs_def
        nextval_playlists_def nextval_song_comments_def Let_def report_orm_Inr
      intro!: rr_report rr_report_delete rr_report_added rr_report_orm
      dest!: sbind_Inr dest: rr_statements
      split: sum.splits option.splits if_splits)
    ((auto dest: rr_statements)?)

lemma rr_delete_rating:
  "ratings_in_range d \<Longrightarrow> ratings_in_range (snd (delete_rating d u s c))"
  unfolding delete_rating_def
  by (auto simp: nextval_users_def nextval_artists_def nextval_albums_def nextval_songs_def
        nextval_playlists_def nextval_song_comments_def Let_def report_orm_Inr
      intro!: rr_report rr_report_delete rr_report_added rr_report_orm
      dest!: sbind_Inr dest: rr_statements
      split: sum.splits option.splits if_splits)
    ((auto dest: rr_statements)?)

lemma rr_add_song_like:
  "ratings_in_range d \<Longrightarrow> ratings_in_range (snd (add_song_like d u s now))"
  unfolding add_song_like_def
  by (auto simp: nextval_users_def nextval_artists_def nextval_albums_def nextval_songs_def
        nextval_playlists_def nextval_song_comments_def Let_def report_orm_Inr
      intro!: rr_report rr_report_delete rr_report_added rr_report_orm
      dest!: sbind_Inr dest: rr_statements
      split: sum.splits option.splits if_splits)
    ((auto dest: rr_statements)?)

lemma rr_delete_song_like:
  "ratings_in_range d \<Longrightarrow> ratings_in_range (snd (delete_song_like d u s))"
  unfolding delete_song_like_def
  by (auto simp: nextval_users_def nextval_artists_def nextval_albums_def nextval_songs_def
        nextval_playlists_def nextval_song_comments_def Let_def report_orm_Inr
      intro!: rr_report rr_report_delete rr_report_added rr_report_orm
      dest!: sbind_Inr dest: rr_statements
      split: sum.splits option.splits if_splits)
    ((auto dest: rr_statements)?)

lemma rr_add_artist_follow:
  "ratings_in_range d \<Longrightarrow> ratings_in_range (snd (add_artist_follow d u a now))"
  unfolding add_artist_follow_def
  by (auto simp: nextval_users_def nextval_artists_def nextval_albums_def nextval_songs_def
        nextval_playlists_def nextval_song_comments_def Let_def report_orm_Inr
      intro!: rr_report rr_report_delete rr_report_added rr_report_orm
      dest!: sbind_Inr dest: rr_statements
      split: sum.splits option.splits if_splits)
    ((auto dest: rr_statements)?)

lemma rr_delete_artist_follow:
  "ratings_in_range d \<Longrightarrow> ratings_in_range (snd (delete_artist_follow d u a))"
  unfolding delete_artist_follow_def
  by (auto simp: nextval_users_def nextval_artists_def nextval_albums_def nextval_songs_def
        nextval_playlists_def nextval_song_comments_def Let_def report_orm_Inr
      intro!: rr_report rr_report_delete rr_report_added rr_report_orm
      dest!: sbind_Inr dest: rr_statements
      split: sum.splits option.splits if_splits)
    ((auto dest: rr_statements)?)

lemma rr_add_song_comment:
  "ratings_in_range d \<Longrightarrow> ratings_in_range (snd (add_song_comment d u s comment now))"
  unfolding add_song_comment_def
  by (auto simp: nextval_users_def nextval_artists_def nextval_albums_def nextval_songs_def
        nextval_playlists_def nextval_song_comments_def Let_def report_orm_Inr
      intro!: rr_report rr_report_delete rr_report_added rr_report_orm
      dest!: sbind_Inr dest: rr_statements
      split: sum.splits option.splits if_splits)
    ((auto dest: rr_statements)?)

lemma rr_delete_song_comment:
  "ratings_in_range d \<Longrightarrow> ratings_in_range (snd (delete_song_comment d i))"
  unfolding delete_song_comment_def
  by (auto simp: nextval_users_def nextval_artists_def nextval_albums_def nextval_songs_def
        nextval_playlists_def nextval_song_comments_def Let_def report_orm_Inr
      intro!: rr_report rr_report_delete rr_report_added rr_report_orm
      dest!: sbind_Inr dest: rr_statements
      split: sum.splits option.splits if_splits)
    ((auto dest: rr_statements)?)

lemma rr_add_user_orm:
  "ratings_in_range d \<Longrightarrow> ratings_in_range (snd (add_user_orm d username email password now))"
  unfolding add_user_orm_def
  by (auto simp: nextval_users_def nextval_artists_def nextval_albums_def nextval_songs_def
        nextval_playlists_def nextval_song_comments_def Let_def report_orm_Inr
      intro!: rr_report rr_report_delete rr_report_added rr_report_orm
      dest!: sbind_Inr dest: rr_statements
      split: sum.splits option.splits if_splits)
    ((auto dest: rr_statements)?)

lemma rr_update_user_orm:
  "ratings_in_range d \<Longrightarrow> ratings_in_range (snd (update_user_orm d i))"
  unfolding update_user_orm_def
  by (auto simp: nextval_users_def nextval_artists_def nextval_albums_def nextval_songs_def
        nextval_playlists_def nextval_song_comments_def Let_def report_orm_Inr
      intro!: rr_report rr_report_delete rr_report_added rr_report_orm
      dest!: sbind_Inr dest: rr_statements
      split: sum.splits option.splits if_splits)
    ((auto dest: rr_statements)?)

lemma rr_delete_user_orm:
  "ratings_in_range d \<Longrightarrow> ratings_in_range (snd (delete_user_orm d i c))"
  unfolding delete_user_orm_def
  by (auto simp: nextval_users_def nextval_artists_def nextval_albums_def nextval_songs_def
        nextval_playlists_def nextval_song_comments_def Let_def report_orm_Inr
      intro!: rr_report rr_report_delete rr_report_added rr_report_orm
      dest!: sbind_Inr dest: rr_statements
      split: sum.splits option.splits if_splits)
    ((auto dest: rr_statements)?)

lemma rr_add_artist_orm:
  "ratings_in_range d \<Longrightarrow> ratings_in_range (snd (add_artist_orm d name bio))"
  unfolding add_artist_orm_def
  by (auto simp: nextval_users_def nextval_artists_def nextval_albums_def nextval_songs_def
        nextval_playlists_def nextval_song_comments_def Let_def report_orm_Inr
      intro!: rr_report rr_report_delete rr_report_added rr_report_orm
      dest!: sbind_Inr dest: rr_statements
      split: sum.splits option.splits if_splits)
    ((auto dest: rr_statements)?)

lemma rr_update_artist_orm:
  "ratings_in_range d \<Longrightarrow> ratings_in_range (snd (update_artist_orm d i))"
  unfolding update_artist_orm_def
  by (auto simp: nextval_users_def nextval_artists_def nextval_albums_def nextval_songs_def
        nextval_playlists_def nextval_song_comments_def Let_def report_orm_Inr
      intro!: rr_report rr_report_delete rr_report_added rr_report_orm
      dest!: sbind_Inr dest: rr_statements
      split: sum.splits option.splits if_splits)
    ((auto dest: rr_statements)?)

lemma rr_delete_artist_orm:
  "ratings_in_range d \<Longrightarrow> ratings_in_range (snd (delete_artist_orm d i c))"
  unfolding delete_artist_orm_def
  by (auto simp: nextval_users_def nextval_artists_def nextval_albums_def nextval_songs_def
        nextval_playlists_def nextval_song_comments_def Let_def report_orm_Inr
      intro!: rr_report rr_report_delete rr_report_added rr_report_orm
      dest!: sbind_Inr dest: rr_statements
      split: sum.splits option.splits if_splits)
    ((auto dest: rr_statements)?)

lemma rr_add_album_orm:
  "ratings_in_range d \<Longrightarrow> ratings_in_range (snd (add_album_orm d a title day))"
  unfolding add_album_orm_def
  by (auto simp: nextval_users_def nextval_artists_def nextval_albums_def nextval_songs_def
        nextval_playlists_def nextval_song_comments_def Let_def report_orm_Inr
      intro!: rr_report rr_report_delete rr_report_added rr_report_orm
      dest!: sbind_Inr dest: rr_statements
      split: sum.splits option.splits if_splits)
    ((auto dest: rr_statements)?)

lemma rr_update_album_orm:
  "ratings_in_range d \<Longrightarrow> ratings_in_range (snd (update_album_orm d i))"
  unfolding update_album_orm_def
  by (auto simp: nextval_users_def nextval_artists_def nextval_albums_def nextval_songs_def
        nextval_playlists_def nextval_song_comments_def Let_def report_orm_Inr
      intro!: rr_report rr_report_delete rr_report_added rr_report_orm
      dest!: sbind_Inr dest: rr_statements
      split: sum.splits option.splits if_splits)
    ((auto dest: rr_statements)?)

lemma rr_delete_album_orm:
  "ratings_in_range d \<Longrightarrow> ratings_in_range (snd (delete_album_orm d i c))"
  unfolding delete_album_orm_def
  by (auto simp: nextval_users_def nextval_artists_def nextval_albums_def nextval_songs_def
        nextval_playlists_def nextval_song_comments_def Let_def report_orm_Inr
      intro!: rr_report rr_report_delete rr_report_added rr_report_orm
      dest!: sbind_Inr dest: rr_statements
      split: sum.splits option.splits if_splits)
    ((auto dest: rr_statements)?)

lemma rr_add_song_orm:
  "ratings_in_range d \<Longrightarrow> ratings_in_range (snd (add_song_orm d a title duration path))"
  unfolding add_song_orm_def
  by (auto simp: nextval_users_def nextval_artists_def nextval_albums_def nextval_songs_def
        nextval_playlists_def nextval_song_comments_def Let_def report_orm_Inr
      intro!: rr_report rr_report_delete rr_report_added rr_report_orm
      dest!: sbind_Inr dest: rr_statements
      split: sum.splits option.splits if_splits)
    ((auto dest: rr_statements)?)

lemma rr_update_song_orm:
  "ratings_in_range d \<Longrightarrow> ratings_in_range (snd (update_song_orm d i))"
  unfolding update_song_orm_def
  by (auto simp: nextval_users_def nextval_artists_def nextval_albums_def nextval_songs_def
        nextval_playlists_def nextval_song_comments_def Let_def report_orm_Inr
      intro!: rr_report rr_report_delete rr_report_added rr_report_orm
      dest!: sbind_Inr dest: rr_statements
      split: sum.splits option.splits if_splits)
    ((auto dest: rr_statements)?)

lemma rr_delete_song_orm:
  "ratings_in_range d \<Longrightarrow> ratings_in_range (snd (delete_song_orm d i c))"
  unfolding delete_song_orm_def
  by (auto simp: nextval_users_def nextval_artists_def nextval_albums_def nextval_songs_def
        nextval_playlists_def nextval_song_comments_def Let_def report_orm_Inr
      intro!: rr_report rr_report_delete rr_report_added rr_report_orm
      dest!: sbind_Inr dest: rr_statements
      split: sum.splits option.splits if_splits)
    ((auto dest: rr_statements)?)

lemma rr_add_playlist_orm:
  "ratings_in_range d \<Longrightarrow> ratings_in_range (snd (add_playlist_orm d u name))"
  unfolding add_playlist_orm_def
  by (auto simp: nextval_users_def nextval_artists_def nextval_albums_def nextval_songs_def
        nextval_playlists_def nextval_song_comments_def Let_def report_orm_Inr
      intro!: rr_report rr_report_delete rr_report_added rr_report_orm
      dest!: sbind_Inr dest: rr_statements
      split: sum.splits option.splits if_splits)
    ((auto dest: rr_statements)?)

lemma rr_update_playlist_orm:
  "ratings_in_range d \<Longrightarrow> ratings_in_range (snd (update_playlist_orm d i))"
  unfolding update_playlist_orm_def
  by (auto simp: nextval_users_def nextval_artists_def nextval_albums_def nextval_songs_def
        nextval_playlists_def nextval_song_comments_def Let_def report_orm_Inr
      intro!: rr_report rr_report_delete rr_report_added rr_report_orm
      dest!: sbind_Inr dest: rr_statements
      split: sum.splits option.splits if_splits)
    ((auto dest: rr_statements)?)

lemma rr_delete_playlist_orm:
  "ratings_in_range d \<Longrightarrow> ratings_in_range (snd (delete_playlist_orm d i c))"
  unfolding delete_playlist_orm_def
  by (auto simp: nextval_users_def nextval_artists_def nextval_albums_def nextval_songs_def
        nextval_playlists_def nextval_song_comments_def Let_def report_orm_Inr
      intro!: rr_report rr_report_delete rr_report_added rr_report_orm
      dest!: sbind_Inr dest: rr_statements
      split: sum.splits option.splits if_splits)
    ((auto dest: rr_statements)?)

lemma rr_add_song_to_playlist_orm:
  "ratings_in_range d \<Longrightarrow> ratings_in_range (snd (add_song_to_playlist_orm d p s now))"
  unfolding add_song_to_playlist_orm_def
  by (auto simp: nextval_users_def nextval_artists_def nextval_albums_def nextval_songs_def
        nextval_playlists_def nextval_song_comments_def Let_def report_orm_Inr
      intro!: rr_report rr_report_delete rr_report_added rr_report_orm
      dest!: sbind_Inr dest: rr_statements
      split: sum.splits option.splits if_splits)
    ((auto dest: rr_statements)?)

lemma rr_remove_song_from_playlist_orm:
  "ratings_in_range d \<Longrightarrow> ratings_in_range (snd (remove_song_from_playlist_orm d p s c))"
  unfolding remove_song_from_playlist_orm_def
  by (auto simp: nextval_users_def nextval_artists_def nextval_albums_def nextval_songs_def
        nextval_playlists_def nextval_song_comments_def Let_def report_orm_Inr
      intro!: rr_report rr_report_delete rr_report_added rr_report_orm
      dest!: sbind_Inr dest: rr_statements
      split: sum.splits option.splits if_splits)
    ((auto dest: rr_statements)?)

lemma rr_add_update_rating_orm:
  "ratings_in_range d \<Longrightarrow> ratings_in_range (snd (add_update_rating_orm d u s t))"
  unfolding add_update_rating_orm_def
  by (auto simp: nextval_users_def nextval_artists_def nextval_albums_def nextval_songs_def
        nextval_playlists_def nextval_song_comments_def Let_def report_orm_Inr
      intro!: rr_report rr_report_delete rr_report_added rr_report_orm
      dest!: sbind_Inr dest: rr_statements
      split: sum.splits option.splits if_splits)
    ((auto dest: rr_statements)?)

lemma rr_delete_rating_orm:
  "ratings_in_range d \<Longrightarrow> ratings_in_range (snd (delete_rating_orm d u s c))"
  unfolding delete_rating_orm_def
  by (auto simp: nextval_users_def nextval_artists_def nextval_albums_def nextval_songs_def
        nextval_playlists_def nextval_song_comments_def Let_def report_orm_Inr
      intro!: rr_report rr_report_delete rr_report_added rr_report_orm
      dest!: sbind_Inr dest: rr_statements
      split: sum.splits option.splits if_splits)
    ((auto dest: rr_statements)?)

lemma rr_raw_step: "ratings_in_range d \<Longrightarrow> ratings_in_range (snd (raw_step d x))"
  by (cases x)
    (simp_all add: rr_add_user rr_update_user rr_delete_user rr_add_artist rr_update_artist
      rr_delete_artist rr_add_album rr_update_album rr_delete_album rr_add_song
      rr_update_song rr_delete_song rr_add_playlist rr_update_playlist rr_delete_playlist
      rr_add_song_to_playlist rr_remove_song_from_playlist rr_add_update_rating
      rr_delete_rating rr_add_song_like rr_delete_song_like rr_add_artist_follow
      rr_delete_artist_follow rr_add_song_comment rr_delete_song_comment)

lemma rr_orm_step: "ratings_in_range d \<Longrightarrow> ratings_in_range (snd (orm_step d x))"
  by (cases x)
    (simp_all add: rr_add_user_orm rr_update_user_orm rr_delete_user_orm rr_add_artist_orm
      rr_update_artist_orm rr_delete_artist_orm rr_add_album_orm rr_update_album_orm
      rr_delete_album_orm rr_add_song_orm rr_update_song_orm rr_delete_song_orm
      rr_add_playlist_orm rr_update_playlist_orm rr_delete_playlist_orm
      rr_add_song_to_playlist_orm rr_remove_song_from_playlist_orm rr_add_update_rating_orm
      rr_delete_rating_orm)

lemma rr_step: "ratings_in_range d \<Longrightarrow> ratings_in_range (snd (step d x))"
  by (cases x) (simp_all add: rr_raw_step rr_orm_step)

lemma rr_run: "ratings_in_range d \<Longrightarrow> ratings_in_range (run d xs)"
  by (induction xs arbitrary: d) (simp_all add: rr_step)

lemma rr_empty: "ratings_in_range empty_db"
  by (simp add: ratings_in_range_def empty_db_def)

lemma rating_not_a_choice:
  assumes "map_of rating_choices t = None"
  shows "add_update_rating d u s t = (InvalidChoice, d)"
    and "add_update_rating_orm d u s t = (InvalidChoice, d)"
proof -
  show "add_update_rating d u s t = (InvalidChoice, d)"
    using assms by (simp add: add_update_rating_def)
  from assms have "t \<notin> fst ` set rating_choices"
    by (simp add: map_of_eq_None_iff)
  then show "add_update_rating_orm d u s t = (InvalidChoice, d)"
    by (simp add: add_update_rating_orm_def)
qed

lemma rating_check_constraint:
  assumes "\<not> (1 \<le> v \<and> v \<le> 5)"
  shows "insert_song_rating_do_update u s v d = Inl CheckViolation"
    and "insert_into_song_ratings u s v d = Inl CheckViolation"
  using assms by (simp_all add: insert_song_rating_do_update_def insert_into_song_ratings_def)

text \<open>
  C8. Every stored rating lies between 1 and 5: the property holds in the empty
  database, every write operation of either program keeps it, so it holds after any
  history of operations. A response to the rating prompt that is not one of the choices
  1 to 5 is refused at the prompt, which asks again (the validation failure of the
  specification: recoverable, the caller re-prompts), and the database is unchanged;
  beneath the prompt the \<^verbatim>\<open>CHECK\<close> constraint refuses such a value too.
\<close>

theorem ratings_stay_in_range:
  "(ratings_in_range d \<longrightarrow> ratings_in_range (snd (step d x)))
   \<and> ratings_in_range (run empty_db xs)
   \<and> (map_of rating_choices t = None \<longrightarrow>
        add_update_rating d u s t = (InvalidChoice, d)
        \<and> add_update_rating_orm d u s t = (InvalidChoice, d))
   \<and> (\<not> (1 \<le> v \<and> v \<le> 5) \<longrightarrow>
        insert_song_rating_do_update u s v d = Inl CheckViolation
        \<and> insert_into_song_ratings u s v d = Inl CheckViolation)"
  using rr_step [of d x] rr_run [OF rr_empty, of xs] rating_not_a_choice [of t d u s]
    rating_check_constraint [of v u s d]
  by blast

theorem ratings_stay_in_range_witness:
  "ratings_in_range demo_db
   \<and> ratings_in_range (snd (step demo_db (Raw (Add_update_rating 1 1 ''2''))))
   \<and> ratings_in_range (run empty_db [Raw (Add_user ''bob'' ''bob@example.org'' ''pw'' 1)])
   \<and> map_of rating_choices ''7'' = None
   \<and> add_update_rating demo_db 1 1 ''7'' = (InvalidChoice, demo_db)
   \<and> add_update_rating_orm demo_db 1 1 ''7'' = (InvalidChoice, demo_db)
   \<and> insert_song_rating_do_update 1 1 7 demo_db = Inl CheckViolation"
proof -
  have h1: "ratings_in_range demo_db"
    by (simp add: ratings_in_range_def demo_db_def)
  have h2: "map_of rating_choices ''7'' = None"
    by (simp add: rating_choices_def)
  have h3: "\<not> (1 \<le> (7::int) \<and> (7::int) \<le> 5)" by simp
  show ?thesis
    using h1 h2 h3
      ratings_stay_in_range [of demo_db "Raw (Add_update_rating 1 1 ''2'')"
        "[Raw (Add_user ''bob'' ''bob@example.org'' ''pw'' 1)]" "''7''" 1 1 7]
    by simp
qed

section \<open>Validated text\<close>












lemma cd_seq [simp]:
  "clean_db (d\<lparr>users_id_seq := x\<rparr>) = clean_db d"
  "clean_db (d\<lparr>artists_id_seq := x\<rparr>) = clean_db d"
  "clean_db (d\<lparr>albums_id_seq := x\<rparr>) = clean_db d"
  "clean_db (d\<lparr>songs_id_seq := x\<rparr>) = clean_db d"
  "clean_db (d\<lparr>playlists_id_seq := x\<rparr>) = clean_db d"
  "clean_db (d\<lparr>song_comments_id_seq := x\<rparr>) = clean_db d"
  by (simp_all add: clean_db_def)










































section \<open>The two programs side by side\<close>







lemma filter_id_length: "(\<exists>r \<in> set xs. k r = i) \<Longrightarrow> 0 < length (filter (\<lambda>r. k r = i) xs)"
  by (simp add: filter_empty_conv)


















end
